theory Spec2Isabelle
  imports Complex_Main "HOL-Library.Char_ord" "HOL-Library.List_Lexorder" "HOL-Library.Log_Nat"
begin

section \<open>Python strings\<close>

text \<open>
  A Python \<open>str\<close> is modelled as a \<open>string\<close> (a list of characters). The order
  \<open><\<close> on strings is the lexicographic one of \<open>List_Lexorder\<close> over the character
  codes of \<open>Char_ord\<close>, which is how Python compares two \<open>str\<close> values: position by
  position, a proper prefix being smaller.
\<close>

definition endswith :: "string \<Rightarrow> string \<Rightarrow> bool" where
  \<comment> \<open>\<open>s.endswith(suf)\<close>\<close>
  "endswith s suf \<longleftrightarrow> length suf \<le> length s \<and> drop (length s - length suf) s = suf"

section \<open>Selecting the raw file: \<open>get_needed_files\<close>\<close>

text \<open>
  The loop of \<open>get_needed_files\<close> keeps one variable, \<open>raw_file\<close>, which starts as
  \<open>None\<close> and is overwritten by every name that ends in \<open>_raw\<close>.
\<close>

fun get_needed_files_loop :: "string option \<Rightarrow> string list \<Rightarrow> string option" where
  "get_needed_files_loop raw_file [] = raw_file"
| "get_needed_files_loop raw_file (one_file # source_files) =
     (if endswith one_file ''_raw''
      then get_needed_files_loop (Some one_file) source_files
      else get_needed_files_loop raw_file source_files)"

definition get_needed_files :: "string list \<Rightarrow> string option" where
  "get_needed_files source_files = get_needed_files_loop None source_files"

section \<open>Camera profiles: \<open>get_camera_info\<close>\<close>

text \<open>
  The result is the tuple the source returns, in the source's order: camera type, number
  of spectral bands, number of irradiance bands, scanning time. The three numbers start
  as \<open>None\<close> and stay so on the branch that never assigns them; the camera type is
  assigned on every branch. The sensor and the date are arbitrary strings, and the
  dates are compared as strings.
\<close>

type_synonym camera_info = "string \<times> int option \<times> int option \<times> int option"

definition get_camera_info :: "string \<Rightarrow> string \<Rightarrow> camera_info" where
  "get_camera_info sensor data_date =
     (if sensor = ''VNIR'' then
        (if data_date < ''2018-08-18'' then
           (''vnir_old'', Some 955, Some 1024, Some 540)
         else if ''2018-08-18'' \<le> data_date \<and> data_date < ''2019-02-26'' then
           (''vnir_middle'', Some 939, Some 1024, Some 540)
         else
           (''vnir_new'', Some 939, Some 3648, Some 210))
      else
        (if data_date < ''2019-02-26'' then
           (''swir_old_middle'', None, None, None)
         else
           (''swir_new'', Some 275, Some 512, Some 210)))"

section \<open>Errors\<close>

text \<open>
  The exceptions that the modelled code can raise, by Python class. The string is the
  message: the source's own text where the source raises, the library's otherwise.
\<close>

datatype error =
    RuntimeError string
  | ValueError string
  | IndexError string
  | KeyError string
  | TypeError string
  | FileNotFoundError string
  | OverflowError string
  | OutsideModel string

text \<open>
  The last constructor is not a Python exception. It marks a call of a library whose
  outcome is not determined here: a write of \<open>rfl_img\<close> into a variable with an
  unlimited dimension, which the array-file library grows; a write of data whose shape
  differs from that of the region written, which the library reshapes, broadcasts or
  rejects; and the mean of no rows, for which \<open>np.mean\<close> warns and returns cells that
  are not numbers. No result below speaks about these calls.
\<close>

fun str_error :: "error \<Rightarrow> string" where
  "str_error (RuntimeError msg) = msg"
| "str_error (ValueError msg) = msg"
| "str_error (IndexError msg) = msg"
| "str_error (KeyError k) = [CHR 0x27] @ k @ [CHR 0x27]"
| "str_error (TypeError msg) = msg"
| "str_error (FileNotFoundError msg) = msg"
| "str_error (OverflowError msg) = msg"
| "str_error (OutsideModel msg) = msg"

section \<open>More of Python's strings and lists\<close>

definition replace_char :: "char \<Rightarrow> char \<Rightarrow> string \<Rightarrow> string" where
  \<comment> \<open>\<open>s.replace(c, d)\<close> for one-character \<open>c\<close> and \<open>d\<close>\<close>
  "replace_char c d s = map (\<lambda>x. if x = c then d else x) s"

definition remove_char :: "char \<Rightarrow> string \<Rightarrow> string" where
  \<comment> \<open>\<open>s.replace(c, "")\<close> for a one-character \<open>c\<close>\<close>
  "remove_char c s = filter (\<lambda>x. x \<noteq> c) s"

fun split_char :: "char \<Rightarrow> string \<Rightarrow> string list" where
  \<comment> \<open>\<open>s.split(c)\<close> for a one-character separator: empty pieces are kept\<close>
  "split_char c [] = [[]]"
| "split_char c (x # xs) =
     (if x = c then [] # split_char c xs
      else (case split_char c xs of
              w # ws \<Rightarrow> (x # w) # ws
            | [] \<Rightarrow> [[x]]))"

definition py_index :: "'a list \<Rightarrow> int \<Rightarrow> error + 'a" where
  \<comment> \<open>\<open>xs[i]\<close>: a negative index counts from the end\<close>
  "py_index xs i =
     (let n = int (length xs) in
      if 0 \<le> i \<and> i < n then Inr (xs ! nat i)
      else if - n \<le> i \<and> i < 0 then Inr (xs ! nat (n + i))
      else Inl (IndexError ''index out of range''))"

definition slice_bound :: "nat \<Rightarrow> int \<Rightarrow> nat" where
  \<comment> \<open>a slice bound brought into \<open>0..n\<close>: negative bounds count from the end\<close>
  "slice_bound n i = (if i < 0 then nat (max 0 (int n + i)) else min (nat i) n)"

definition py_slice :: "int \<Rightarrow> int \<Rightarrow> 'a list \<Rightarrow> 'a list" where
  \<comment> \<open>\<open>xs[start:stop]\<close>\<close>
  "py_slice start stop xs =
     (let lo = slice_bound (length xs) start; hi = slice_bound (length xs) stop
      in take (hi - lo) (drop lo xs))"

definition is_space :: "char \<Rightarrow> bool" where
  "is_space c \<longleftrightarrow>
     c \<in> set [CHR 0x09, CHR 0x0A, CHR 0x0B, CHR 0x0C, CHR 0x0D,
               CHR 0x1C, CHR 0x1D, CHR 0x1E, CHR 0x1F, CHR 0x20]"

definition strip :: "string \<Rightarrow> string" where
  "strip s = rev (dropWhile is_space (rev (dropWhile is_space s)))"

definition digit_val :: "char \<Rightarrow> nat option" where
  "digit_val c =
     (if CHR ''0'' \<le> c \<and> c \<le> CHR ''9'' then Some (of_char c - 48) else None)"

fun parse_digits :: "nat \<Rightarrow> string \<Rightarrow> nat option" where
  "parse_digits acc [] = Some acc"
| "parse_digits acc (c # cs) =
     (if c = CHR ''_'' then
        (case cs of
           [] \<Rightarrow> None
         | d # _ \<Rightarrow> (if digit_val d = None then None else parse_digits acc cs))
      else (case digit_val c of
              None \<Rightarrow> None
            | Some v \<Rightarrow> parse_digits (10 * acc + v) cs))"

text \<open>
  \<open>int(s)\<close> on a string of ASCII characters, base ten: surrounding white space is
  dropped, one sign is allowed, then at least one digit, with single underscores
  allowed between digits. Anything else is a \<open>ValueError\<close>.
\<close>

definition py_int :: "string \<Rightarrow> error + int" where
  "py_int s =
     (let t = strip s;
          neg = (case t of c # _ \<Rightarrow> c = CHR ''-'' | [] \<Rightarrow> False);
          body = (case t of c # r \<Rightarrow> (if c = CHR ''-'' \<or> c = CHR ''+'' then r else t) | [] \<Rightarrow> [])
      in case body of
           [] \<Rightarrow> Inl (ValueError (''invalid literal for int() with base 10: '' @ [CHR 0x27] @ s @ [CHR 0x27]))
         | c # _ \<Rightarrow>
             (if digit_val c = None
              then Inl (ValueError (''invalid literal for int() with base 10: '' @ [CHR 0x27] @ s @ [CHR 0x27]))
              else (case parse_digits 0 body of
                      None \<Rightarrow> Inl (ValueError (''invalid literal for int() with base 10: '' @ [CHR 0x27] @ s @ [CHR 0x27]))
                    | Some n \<Rightarrow> Inr (if neg then - int n else int n))))"

definition get_local_time :: "string \<Rightarrow> string" where
  "get_local_time timestamp =
     (if CHR ''T'' \<in> set timestamp
      then take 8 (split_char (CHR ''T'') timestamp ! 1)
      else timestamp)"

section \<open>The environment logger files: \<open>irradiance_time_extractor\<close>\<close>

text \<open>
  One record of \<open>environment_sensor_readings\<close>, as the source reads it: the fields
  are the keys \<open>timestamp\<close>, \<open>spectrometers\<close> and \<open>spectrometer\<close>. A key that is
  absent is \<open>None\<close>. Under \<open>spectrometers\<close> each instrument name maps to an entry,
  and under \<open>spectrometer\<close> there is one entry; the content of an entry is its
  \<open>spectrum\<close>, \<open>None\<close> when that key is absent. The cells of a spectrum are of a type
  \<open>'a\<close> of numbers.
\<close>

record 'a reading =
  j_timestamp :: "string option"
  j_spectrometers :: "(string \<rightharpoonup> 'a list option) option"
  j_spectrometer :: "'a list option option"

text \<open>A two-dimensional array: its column count and its rows.\<close>

record 'a matrix =
  ncols :: nat
  rows :: "'a list list"

definition entry_spectrum :: "'a list option \<Rightarrow> error + 'a list" where
  \<comment> \<open>\<open>entry["spectrum"]\<close>\<close>
  "entry_spectrum e = (case e of None \<Rightarrow> Inl (KeyError ''spectrum'') | Some sp \<Rightarrow> Inr sp)"

definition spectrometers_spectrum :: "'a reading \<Rightarrow> string \<Rightarrow> error + 'a list" where
  \<comment> \<open>\<open>rec["spectrometers"][name]["spectrum"]\<close>\<close>
  "spectrometers_spectrum r name =
     (case j_spectrometers r of
        None \<Rightarrow> Inl (KeyError ''spectrometers'')
      | Some m \<Rightarrow> (case m name of None \<Rightarrow> Inl (KeyError name) | Some e \<Rightarrow> entry_spectrum e))"

definition spectrometer_spectrum :: "'a reading \<Rightarrow> error + 'a list" where
  \<comment> \<open>\<open>rec["spectrometer"]["spectrum"]\<close>\<close>
  "spectrometer_spectrum r =
     (case j_spectrometer r of None \<Rightarrow> Inl (KeyError ''spectrometer'') | Some e \<Rightarrow> entry_spectrum e)"

definition read_num_bands :: "string \<Rightarrow> 'a reading \<Rightarrow> error + nat" where
  \<comment> \<open>the band count, always taken from record 0\<close>
  "read_num_bands camera_type r0 =
     map_sum id length
       (if j_spectrometers r0 \<noteq> None then
          (if camera_type = ''swir_new''
           then spectrometers_spectrum r0 ''NIRQuest-512''
           else spectrometers_spectrum r0 ''FLAME-T'')
        else spectrometer_spectrum r0)"

definition read_time :: "'a reading \<Rightarrow> error + int" where
  "read_time r =
     (case j_timestamp r of
        None \<Rightarrow> Inl (KeyError ''timestamp'')
      | Some time_current \<Rightarrow>
          (let array_time =
                 split_char (CHR '' '')
                   (remove_char (CHR '':'')
                      (replace_char (CHR ''-'') (CHR '' '')
                         (replace_char (CHR ''.'') (CHR '' '') time_current)))
           in if length array_time \<le> 3 then Inl (IndexError ''list index out of range'')
              else py_int (array_time ! 3)))"

definition read_spectrum :: "string \<Rightarrow> 'a reading \<Rightarrow> 'a reading \<Rightarrow> error + 'a list" where
  \<comment> \<open>the spectrum read for the record \<open>r\<close> of the loop; \<open>r0\<close> is record 0 of the file\<close>
  "read_spectrum camera_type r0 r =
     (if j_spectrometers r \<noteq> None then
        (if camera_type = ''swir_new''
         then spectrometers_spectrum r0 ''NIRQuest-512''
         else spectrometers_spectrum r ''FLAME-T'')
      else spectrometer_spectrum r)"

definition assign_row :: "nat \<Rightarrow> 'a list \<Rightarrow> error + 'a list" where
  \<comment> \<open>\<open>spectra[idx, :] = spectrum\<close>: the row of \<open>num_bands\<close> cells after the assignment;
      a spectrum of one cell is broadcast over the row\<close>
  "assign_row num_bands spectrum =
     (if length spectrum = num_bands then Inr spectrum
      else if length spectrum = 1 then Inr (replicate num_bands (hd spectrum))
      else Inl (ValueError ''could not broadcast input array''))"

fun extract_loop ::
  "string \<Rightarrow> nat \<Rightarrow> 'a reading \<Rightarrow> 'a reading list \<Rightarrow> error + (int list \<times> 'a list list)" where
  "extract_loop camera_type num_bands r0 [] = Inr ([], [])"
| "extract_loop camera_type num_bands r0 (r # rs) =
     (case read_time r of
        Inl e \<Rightarrow> Inl e
      | Inr time_current_r \<Rightarrow>
          (case read_spectrum camera_type r0 r of
             Inl e \<Rightarrow> Inl e
           | Inr spectrum \<Rightarrow>
               (case assign_row num_bands spectrum of
                  Inl e \<Rightarrow> Inl e
                | Inr row \<Rightarrow>
                    (case extract_loop camera_type num_bands r0 rs of
                       Inl e \<Rightarrow> Inl e
                     | Inr (tms, spectra) \<Rightarrow> Inr (time_current_r # tms, row # spectra)))))"

text \<open>
  The argument \<open>env_json\<close> is the content of the file under the key
  \<open>environment_sensor_readings\<close>, \<open>None\<close> when the key is absent. The result is the
  pair of the source: the times and the array of spectra.
\<close>

definition irradiance_time_extractor ::
  "string \<Rightarrow> 'a reading list option \<Rightarrow> error + (int list \<times> 'a matrix)" where
  "irradiance_time_extractor camera_type env_json =
     (case env_json of
        None \<Rightarrow> Inl (KeyError ''environment_sensor_readings'')
      | Some sensor_reading_json \<Rightarrow>
          (case sensor_reading_json of
             [] \<Rightarrow> Inl (IndexError ''list index out of range'')
           | r0 # _ \<Rightarrow>
               (case read_num_bands camera_type r0 of
                  Inl e \<Rightarrow> Inl e
                | Inr num_bands \<Rightarrow>
                    (case extract_loop camera_type num_bands r0 sensor_reading_json of
                       Inl e \<Rightarrow> Inl e
                     | Inr (tms, spectra) \<Rightarrow>
                         Inr (tms, \<lparr>ncols = num_bands, rows = spectra\<rparr>)))))"

section \<open>Reading a folder of logger files\<close>

text \<open>
  The loop of \<open>apply_calibration\<close> over \<open>os.listdir\<close>: a folder is the list of its
  entries in listing order, each a name and the content of the file. The state is the
  pair \<open>envlog_tot_time\<close>, \<open>envlog_spectra\<close>; \<open>np.vstack\<close> needs equal column counts.
\<close>

definition vstack :: "'a matrix \<Rightarrow> 'a matrix \<Rightarrow> error + 'a matrix" where
  "vstack a b =
     (if ncols a = ncols b then Inr \<lparr>ncols = ncols a, rows = rows a @ rows b\<rparr>
      else Inl (ValueError ''all the input array dimensions except for the concatenation axis must match exactly''))"

fun read_envlog_loop ::
  "string \<Rightarrow> int list \<times> 'a matrix \<Rightarrow> (string \<times> 'a reading list option) list \<Rightarrow>
   error + (int list \<times> 'a matrix)" where
  "read_envlog_loop camera_type acc [] = Inr acc"
| "read_envlog_loop camera_type acc ((one_file, env_json) # files) =
     (if endswith one_file ''environmentlogger.json'' then
        (case irradiance_time_extractor camera_type env_json of
           Inl e \<Rightarrow> Inl e
         | Inr (time, spectrum) \<Rightarrow>
             (case vstack (snd acc) spectrum of
                Inl e \<Rightarrow> Inl e
              | Inr stacked \<Rightarrow> read_envlog_loop camera_type (fst acc @ time, stacked) files))
      else read_envlog_loop camera_type acc files)"

section \<open>Nearest record and mean spectrum\<close>

fun argmin_scan :: "nat \<Rightarrow> int \<Rightarrow> nat \<Rightarrow> int list \<Rightarrow> nat" where
  \<comment> \<open>the index of the smallest value so far, that value, the next index, the rest\<close>
  "argmin_scan best best_val k [] = best"
| "argmin_scan best best_val k (x # xs) =
     (if x < best_val then argmin_scan k x (Suc k) xs
      else argmin_scan best best_val (Suc k) xs)"

definition np_argmin :: "int list \<Rightarrow> error + nat" where
  \<comment> \<open>\<open>np.argmin\<close>: the first index of the minimum; an empty array is an error\<close>
  "np_argmin xs =
     (case xs of
        [] \<Rightarrow> Inl (ValueError ''attempt to get argmin of an empty sequence'')
      | x # rest \<Rightarrow> Inr (argmin_scan 0 x 1 rest))"

text \<open>
  The differences are Python integers, and each is stored in a cell of an array of
  64-bit floats. \<open>float64_of_int\<close> is the value of the cell after the store, which is
  again an integer: up to \<open>2 ^ 53\<close> in absolute value every integer is stored as it is;
  beyond, the integer is rounded to 53 significant bits, a tie going to the even
  neighbour, and an integer that rounds to \<open>2 ^ 1024\<close> or more makes the store raise
  \<open>OverflowError\<close>.
\<close>

definition float64_of_int :: "int \<Rightarrow> error + int" where
  "float64_of_int x =
     (let a = \<bar>x\<bar> in
      if a \<le> 2 ^ 53 then Inr x
      else
        (let e = nat (bitlen a - 53);
             m = a div 2 ^ e;
             r = a mod 2 ^ e;
             half = 2 ^ (e - 1);
             rounded = (if half < r \<or> (r = half \<and> odd m) then m + 1 else m) * 2 ^ e
         in if 2 ^ 1024 \<le> rounded
            then Inl (OverflowError ''int too large to convert to float'')
            else Inr (if x < 0 then - rounded else rounded)))"

fun abs_diff_time :: "int \<Rightarrow> int list \<Rightarrow> error + int list" where
  \<comment> \<open>the loop that fills \<open>abs_diff_time\<close>, one store for each time\<close>
  "abs_diff_time image_time [] = Inr []"
| "abs_diff_time image_time (t # envlog_tot_time) =
     (case float64_of_int \<bar>image_time - t\<bar> of
        Inl e \<Rightarrow> Inl e
      | Inr d \<Rightarrow>
          (case abs_diff_time image_time envlog_tot_time of
             Inl e \<Rightarrow> Inl e
           | Inr ds \<Rightarrow> Inr (d # ds)))"

definition ind_closet_time :: "int \<Rightarrow> int list \<Rightarrow> error + nat" where
  "ind_closet_time image_time envlog_tot_time =
     (case abs_diff_time image_time envlog_tot_time of
        Inl e \<Rightarrow> Inl e
      | Inr ds \<Rightarrow> np_argmin ds)"

definition np_mean_axis0 :: "nat \<Rightarrow> 'a::{semiring_1,inverse} list list \<Rightarrow> error + 'a list" where
  \<comment> \<open>\<open>np.mean(rows, axis=0)\<close> for at least one row of \<open>n\<close> columns: column sum over
      row count\<close>
  "np_mean_axis0 n rs =
     (if rs = [] then Inl (OutsideModel ''mean of no rows'')
      else Inr (map (\<lambda>j. sum_list (map (\<lambda>r. r ! j) rs) / of_nat (length rs)) [0..<n]))"

definition window_rows :: "nat \<Rightarrow> int \<Rightarrow> 'a list list \<Rightarrow> 'a list list" where
  \<comment> \<open>\<open>envlog_spectra[ind : ind + num_irridiance_record - 1, :]\<close>\<close>
  "window_rows ind num_irridiance_record rs =
     py_slice (int ind) (int ind + num_irridiance_record - 1) rs"

definition mean_spectrum ::
  "int \<Rightarrow> int list \<Rightarrow> 'a::{semiring_1,inverse} matrix \<Rightarrow> int \<Rightarrow> error + 'a list" where
  "mean_spectrum image_time envlog_tot_time envlog_spectra num_irridiance_record =
     (case ind_closet_time image_time envlog_tot_time of
        Inl e \<Rightarrow> Inl e
      | Inr ind \<Rightarrow>
          np_mean_axis0 (ncols envlog_spectra)
            (window_rows ind num_irridiance_record (rows envlog_spectra)))"

definition num_irridiance_record :: "int \<Rightarrow> int" where
  \<comment> \<open>\<open>int(image_scanning_time/5)\<close>: the quotient, cut towards zero\<close>
  "num_irridiance_record image_scanning_time =
     (if 0 \<le> image_scanning_time then image_scanning_time div 5
      else - ((- image_scanning_time) div 5))"

section \<open>Three-dimensional arrays\<close>

text \<open>
  A three-dimensional array is its shape and its cells, nested in axis order: the raw
  cube is rows, then columns, then bands. A well-formed array has the lengths its shape
  says.
\<close>

record 'a array3 =
  dim0 :: nat
  dim1 :: nat
  dim2 :: nat
  cells :: "'a list list list"

definition array3_ok :: "'a array3 \<Rightarrow> bool" where
  "array3_ok a \<longleftrightarrow>
     length (cells a) = dim0 a \<and>
     list_all (\<lambda>p. length p = dim1 a \<and> list_all (\<lambda>q. length q = dim2 a) p) (cells a)"

definition take_bands :: "nat \<Rightarrow> 'a array3 \<Rightarrow> 'a array3" where
  \<comment> \<open>\<open>a[:, :, 0:n]\<close>\<close>
  "take_bands n a =
     \<lparr>dim0 = dim0 a, dim1 = dim1 a, dim2 = min n (dim2 a),
      cells = map (map (take n)) (cells a)\<rparr>"

definition rollaxis_2_0 :: "'a array3 \<Rightarrow> 'a array3" where
  \<comment> \<open>\<open>np.rollaxis(a, 2, 0)\<close>: the last axis becomes the first\<close>
  "rollaxis_2_0 a =
     \<lparr>dim0 = dim2 a, dim1 = dim0 a, dim2 = dim1 a,
      cells = map (\<lambda>b. map (map (\<lambda>q. q ! b)) (cells a)) [0..<dim2 a]\<rparr>"

section \<open>Coefficients and reflectance\<close>

text \<open>
  The raw cube, the spectra and the coefficients hold numbers of a type \<open>'a\<close>, with
  exact arithmetic: rounding is not modelled. A quotient is a cell that may fail to be
  a number: dividing by zero gives not-a-number for a zero dividend and an infinity, of
  one or the other sign, otherwise. These are also the cells of the array file.
\<close>

datatype 'a cell = Finite 'a | Infinite | NaN

definition np_divide :: "'a::{zero,inverse} \<Rightarrow> 'a \<Rightarrow> 'a cell" where
  "np_divide x y = (if y = 0 then (if x = 0 then NaN else Infinite) else Finite (x / y))"

definition finite_cells :: "'a array3 \<Rightarrow> 'a cell array3" where
  \<comment> \<open>an array of numbers as an array of cells\<close>
  "finite_cells a =
     \<lparr>dim0 = dim0 a, dim1 = dim1 a, dim2 = dim2 a, cells = map (map (map Finite)) (cells a)\<rparr>"

definition bcast2 :: "('a \<Rightarrow> 'a \<Rightarrow> 'a) \<Rightarrow> 'a list \<Rightarrow> 'a list \<Rightarrow> error + 'a list" where
  \<comment> \<open>an element-wise operation on two arrays of one axis, a length of one being
      stretched to the other length\<close>
  "bcast2 f xs ys =
     (if length xs = length ys then Inr (map2 f xs ys)
      else if length xs = 1 then Inr (map (f (hd xs)) ys)
      else if length ys = 1 then Inr (map (\<lambda>x. f x (hd ys)) xs)
      else Inl (ValueError ''operands could not be broadcast together''))"

definition divide_bands :: "'a::{zero,inverse} array3 \<Rightarrow> 'a list \<Rightarrow> error + 'a cell array3" where
  \<comment> \<open>\<open>img_dn / irrad2dn\<close>, the divisor being one row of band values\<close>
  "divide_bands a d =
     (if dim2 a = length d then
        Inr \<lparr>dim0 = dim0 a, dim1 = dim1 a, dim2 = dim2 a,
             cells = map (map (\<lambda>q. map2 np_divide q d)) (cells a)\<rparr>
      else if length d = 1 then
        Inr \<lparr>dim0 = dim0 a, dim1 = dim1 a, dim2 = dim2 a,
             cells = map (map (map (\<lambda>x. np_divide x (hd d)))) (cells a)\<rparr>
      else if dim2 a = 1 then
        Inr \<lparr>dim0 = dim0 a, dim1 = dim1 a, dim2 = length d,
             cells = map (map (\<lambda>q. map (\<lambda>y. np_divide (hd q) y) d)) (cells a)\<rparr>
      else Inl (ValueError ''operands could not be broadcast together''))"

fun gather :: "'a list \<Rightarrow> int list \<Rightarrow> error + 'a list" where
  \<comment> \<open>\<open>xs[indices]\<close> for a list of integer indices\<close>
  "gather xs [] = Inr []"
| "gather xs (i # indices) =
     (case py_index xs i of
        Inl e \<Rightarrow> Inl e
      | Inr v \<Rightarrow> (case gather xs indices of Inl e \<Rightarrow> Inl e | Inr vs \<Rightarrow> Inr (v # vs)))"

definition np_resize :: "'a::zero list \<Rightarrow> nat \<Rightarrow> 'a list" where
  \<comment> \<open>\<open>np.resize(xs, (1, n))\<close>, as its one row: the cells repeated in order up to
      \<open>n\<close> cells, zeros when there is no cell to repeat\<close>
  "np_resize xs n =
     (if xs = [] then replicate n 0 else map (\<lambda>i. xs ! (i mod length xs)) [0..<n])"

definition project_spectrum ::
  "'a::zero list \<Rightarrow> int list \<Rightarrow> int option \<Rightarrow> error + 'a list" where
  \<comment> \<open>\<open>test_irridance_re\<close> from the mean spectrum, the band index and the band count\<close>
  "project_spectrum mean best_matched_index num_irradiance_bands =
     (case gather mean best_matched_index of
        Inl e \<Rightarrow> Inl e
      | Inr test_irridance \<Rightarrow>
          (case num_irradiance_bands of
             None \<Rightarrow> Inl (TypeError ''expected a sequence of integers or a single integer'')
           | Some n \<Rightarrow>
               (if n < 0 then Inl (ValueError ''all elements of `new_shape` must be non-negative'')
                else Inr (np_resize test_irridance (nat n)))))"

definition irrad2dn :: "'a::{plus,times} list \<Rightarrow> 'a list \<Rightarrow> 'a list \<Rightarrow> error + 'a list" where
  \<comment> \<open>\<open>(loaded_gain * test_irridance_re) + loaded_bias\<close>\<close>
  "irrad2dn loaded_gain test_irridance_re loaded_bias =
     (case bcast2 (*) loaded_gain test_irridance_re of
        Inl e \<Rightarrow> Inl e
      | Inr scaled \<Rightarrow> bcast2 (+) scaled loaded_bias)"

text \<open>
  The end of \<open>apply_calibration\<close>. First the reference and the division, with the
  reordering of the axes; then the whole step, which for the two older cameras keeps the
  first 679 or 662 bands of the spectrum and of the raw cube before it divides. The
  result is the array that is handed to \<open>update_netcdf\<close>.
\<close>

definition divide_and_roll ::
  "'a::{zero,plus,times,inverse} array3 \<Rightarrow> 'a list \<Rightarrow> 'a list \<Rightarrow> 'a list \<Rightarrow>
   error + 'a cell array3" where
  "divide_and_roll img_dn test_irridance_re loaded_gain loaded_bias =
     (case irrad2dn loaded_gain test_irridance_re loaded_bias of
        Inl e \<Rightarrow> Inl e
      | Inr ref \<Rightarrow>
          (case divide_bands img_dn ref of
             Inl e \<Rightarrow> Inl e
           | Inr rfl_data \<Rightarrow> Inr (rollaxis_2_0 rfl_data)))"

definition reflectance ::
  "string \<Rightarrow> 'a::{zero,plus,times,inverse} array3 \<Rightarrow> 'a list \<Rightarrow> 'a list \<Rightarrow> 'a list \<Rightarrow>
   error + 'a cell array3" where
  "reflectance camera_type img_dn test_irridance_re loaded_gain loaded_bias =
     (if camera_type = ''vnir_old'' then
        divide_and_roll (take_bands 679 img_dn) (take 679 test_irridance_re)
          loaded_gain loaded_bias
      else if camera_type = ''vnir_middle'' then
        divide_and_roll (take_bands 662 img_dn) (take 662 test_irridance_re)
          loaded_gain loaded_bias
      else divide_and_roll img_dn test_irridance_re loaded_gain loaded_bias)"

section \<open>The array file: \<open>update_netcdf\<close>\<close>

text \<open>
  A file of the array library is its global attributes, its dimensions and its
  variables, the last two in the order of the file; names are keys, so they do not
  repeat. A dimension has a length and may be unlimited. A variable has a data type,
  the names of its dimensions, its attributes and its data. An attribute value is one
  number or a value of another kind. The data of a variable are the values stored in
  the file: a three-dimensional array of cells, or the integers of a variable of an
  integer type, or data of another kind, or nothing yet for a variable that has been
  created and not written. \<open>NotDetermined\<close> stands for stored values that are not
  determined here.
\<close>

record ncdim =
  dim_len :: nat
  dim_isunlimited :: bool

datatype 'v attval = AttNum rat | AttOther 'v

datatype ('a, 'o) ncdata = Cube "'a array3" | Ints "int list" | Other 'o | Unwritten | NotDetermined

record ('v, 'a, 'o) ncvar =
  var_datatype :: string
  var_dimensions :: "string list"
  var_atts :: "string \<rightharpoonup> 'v attval"
  var_data :: "('a, 'o) ncdata"

record ('v, 'a, 'o) dataset =
  ds_atts :: "string \<rightharpoonup> 'v attval"
  ds_dimensions :: "(string \<times> ncdim) list"
  ds_variables :: "(string \<times> ('v, 'a, 'o) ncvar) list"

text \<open>
  The calls of the library. A dimension created with no size is unlimited and has no
  record yet. A variable is created with no attribute but its fill value, when one is
  given, and with no data. Setting attributes adds them to those present.
\<close>

definition createDimension :: "string \<Rightarrow> nat option \<Rightarrow> string \<times> ncdim" where
  "createDimension name sz =
     (name, \<lparr>dim_len = (case sz of None \<Rightarrow> 0 | Some n \<Rightarrow> n),
             dim_isunlimited = (sz = None)\<rparr>)"

definition createVariable ::
  "string \<Rightarrow> string list \<Rightarrow> 'v attval option \<Rightarrow> ('v, 'a, 'o) ncvar" where
  "createVariable datatype dimensions fill_value =
     \<lparr>var_datatype = datatype, var_dimensions = dimensions,
      var_atts = (case fill_value of None \<Rightarrow> Map.empty | Some fv \<Rightarrow> [''_FillValue'' \<mapsto> fv]),
      var_data = Unwritten\<rparr>"

definition setncatts :: "(string \<rightharpoonup> 'v) \<Rightarrow> (string \<rightharpoonup> 'v) \<Rightarrow> (string \<rightharpoonup> 'v)" where
  "setncatts present atts = present ++ atts"

text \<open>
  Reading a variable and writing what was read: \<open>dst[name][:] = src[name][:]\<close>. The
  library reads with the attributes of the variable read: it unpacks with
  \<open>scale_factor\<close> and \<open>add_offset\<close>, masks with the fill value, \<open>missing_value\<close> and the
  valid range, and converts with \<open>_Unsigned\<close> and \<open>_Encoding\<close>. It writes with the
  attributes that the variable written has at that time, which here is at most the fill
  value, so nothing is packed again, and it puts the fill value into the masked cells.

  With none of these attributes but the fill value, the values stored come back as they
  are: the cells masked are those that hold the fill value, and they receive it again.
  The integers of a variable of an integer type that has a scale or an offset are
  determined here where both are whole numbers, no cell is masked, and every product and
  sum lies in the range of the type and within \<open>2 ^ 24\<close>, so that the arithmetic is exact
  whatever the type of the attribute: each integer \<open>x\<close> is stored as
  \<open>x * scale_factor + add_offset\<close>. In every other case the values stored are not
  determined here.
\<close>

definition conversion_atts :: "string list" where
  "conversion_atts =
     [''scale_factor'', ''add_offset'', ''missing_value'', ''valid_min'', ''valid_max'',
      ''valid_range'', ''_Unsigned'', ''_Encoding'']"

definition plain_atts :: "(string \<rightharpoonup> 'v attval) \<Rightarrow> bool" where
  "plain_atts atts \<longleftrightarrow> list_all (\<lambda>k. atts k = None) conversion_atts"

definition int_types :: "(string \<times> int \<times> int \<times> int) list" where
  \<comment> \<open>an integer type: its least and greatest value and its default fill value\<close>
  "int_types =
     [(''i1'', - 128, 127, - 127),
      (''i2'', - 32768, 32767, - 32767),
      (''i4'', - 2147483648, 2147483647, - 2147483647),
      (''i8'', - 9223372036854775808, 9223372036854775807, - 9223372036854775806),
      (''u1'', 0, 255, 255),
      (''u2'', 0, 65535, 65535),
      (''u4'', 0, 4294967295, 4294967295),
      (''u8'', 0, 18446744073709551615, 18446744073709551614)]"

definition whole_att :: "'v attval option \<Rightarrow> int \<Rightarrow> int option" where
  \<comment> \<open>an attribute that is absent, with its default, or a whole number\<close>
  "whole_att a dflt =
     (case a of
        None \<Rightarrow> Some dflt
      | Some (AttNum q) \<Rightarrow> (if q = of_int \<lfloor>q\<rfloor> then Some \<lfloor>q\<rfloor> else None)
      | Some (AttOther v) \<Rightarrow> None)"

definition unpacked_ints :: "(string \<rightharpoonup> 'v attval) \<Rightarrow> string \<Rightarrow> int list \<Rightarrow> int list option" where
  "unpacked_ints atts datatype xs =
     (case map_of int_types datatype of
        None \<Rightarrow> None
      | Some (lo, hi, fill) \<Rightarrow>
          (case (whole_att (atts ''scale_factor'') 1, whole_att (atts ''add_offset'') 0) of
             (Some s, Some off) \<Rightarrow>
               (if list_all (\<lambda>k. atts k = None)
                     [''missing_value'', ''valid_min'', ''valid_max'', ''valid_range'',
                      ''_Unsigned'', ''_Encoding''] \<and>
                   list_all
                     (\<lambda>x. x \<noteq> fill \<and>
                          (case atts ''_FillValue'' of
                             None \<Rightarrow> True
                           | Some (AttNum q) \<Rightarrow> q \<noteq> of_int x
                           | Some (AttOther v) \<Rightarrow> False) \<and>
                          lo \<le> x * s \<and> x * s \<le> hi \<and> \<bar>x * s\<bar> \<le> 2 ^ 24 \<and>
                          lo \<le> x * s + off \<and> x * s + off \<le> hi \<and> \<bar>x * s + off\<bar> \<le> 2 ^ 24)
                     xs
                then Some (map (\<lambda>x. x * s + off) xs)
                else None)
           | _ \<Rightarrow> None))"

definition read_write ::
  "(string \<rightharpoonup> 'v attval) \<Rightarrow> string \<Rightarrow> ('a, 'o) ncdata \<Rightarrow> ('a, 'o) ncdata" where
  "read_write atts datatype stored =
     (if plain_atts atts then stored
      else (case stored of
              Ints xs \<Rightarrow>
                (case unpacked_ints atts datatype xs of
                   None \<Rightarrow> NotDetermined
                 | Some ys \<Rightarrow> Ints ys)
            | _ \<Rightarrow> NotDetermined))"

text \<open>
  A variable read has, along each of its dimensions, the length of the dimension. The
  assignment above grows an unlimited dimension of the file written to the length of the
  data along it.
\<close>

definition grow_dims ::
  "(string \<times> ncdim) list \<Rightarrow> string list \<Rightarrow> (string \<times> ncdim) list \<Rightarrow> (string \<times> ncdim) list" where
  "grow_dims src_dims names dims =
     map (\<lambda>(n, d).
            if dim_isunlimited d \<and> n \<in> set names
            then (n, \<lparr>dim_len =
                         max (dim_len d)
                           (case map_of src_dims n of None \<Rightarrow> 0 | Some sd \<Rightarrow> dim_len sd),
                       dim_isunlimited = True\<rparr>)
            else (n, d))
         dims"

definition dim_extent :: "(string \<times> ncdim) list \<Rightarrow> string \<Rightarrow> error + nat" where
  \<comment> \<open>the length of a dimension of fixed size\<close>
  "dim_extent dims name =
     (case map_of dims name of
        None \<Rightarrow> Inl (OutsideModel ''no such dimension'')
      | Some d \<Rightarrow>
          (if dim_isunlimited d then Inl (OutsideModel ''unlimited dimension'')
           else Inr (dim_len d)))"

definition var_shape3 :: "(string \<times> ncdim) list \<Rightarrow> string list \<Rightarrow> error + (nat \<times> nat \<times> nat)" where
  \<comment> \<open>the shape of a variable over three dimensions of fixed size\<close>
  "var_shape3 dims names =
     (case names of
        [n0, n1, n2] \<Rightarrow>
          (case dim_extent dims n0 of
             Inl e \<Rightarrow> Inl e
           | Inr e0 \<Rightarrow>
               (case dim_extent dims n1 of
                  Inl e \<Rightarrow> Inl e
                | Inr e1 \<Rightarrow>
                    (case dim_extent dims n2 of
                       Inl e \<Rightarrow> Inl e
                     | Inr e2 \<Rightarrow> Inr (e0, e1, e2))))
      | _ \<Rightarrow> Inl (OutsideModel ''not three dimensions''))"

text \<open>
  The two assignments of the older cameras, \<open>dst[name][:cutoff, :, :] = rfl_data\<close> and
  \<open>dst[name][cutoff:, :, :] = np.nan\<close>, on a variable of shape \<open>(n0, n1, n2)\<close>: the
  first fills the slots below \<open>cutoff\<close> with the data, the second every cell of the
  slots from \<open>cutoff\<close> on with \<open>nan\<close>. The assignment of the other cameras, \<open>dst[name][:] = rfl_data\<close>,
  fills the whole variable.
\<close>

definition put_subset ::
  "nat \<Rightarrow> 'a \<Rightarrow> nat \<times> nat \<times> nat \<Rightarrow> 'a array3 \<Rightarrow> error + 'a array3" where
  "put_subset cutoff nan shape rfl_data =
     (case shape of (n0, n1, n2) \<Rightarrow>
        (if dim0 rfl_data = min cutoff n0 \<and> dim1 rfl_data = n1 \<and> dim2 rfl_data = n2 then
           Inr \<lparr>dim0 = n0, dim1 = n1, dim2 = n2,
                cells = cells rfl_data @ replicate (n0 - cutoff) (replicate n1 (replicate n2 nan))\<rparr>
         else Inl (OutsideModel ''shape of the data differs from the region'')))"

definition put_all :: "nat \<times> nat \<times> nat \<Rightarrow> 'a array3 \<Rightarrow> error + 'a array3" where
  "put_all shape rfl_data =
     (case shape of (n0, n1, n2) \<Rightarrow>
        (if dim0 rfl_data = n0 \<and> dim1 rfl_data = n1 \<and> dim2 rfl_data = n2 then
           Inr \<lparr>dim0 = n0, dim1 = n1, dim2 = n2, cells = cells rfl_data\<rparr>
         else Inl (OutsideModel ''shape of the data differs from the region'')))"

definition put_rfl_img ::
  "'a \<Rightarrow> (string \<times> ncdim) list \<Rightarrow> string list \<Rightarrow> 'a array3 \<Rightarrow> string \<Rightarrow> error + 'a array3" where
  "put_rfl_img nan dims names rfl_data camera_type =
     (case var_shape3 dims names of
        Inl e \<Rightarrow> Inl e
      | Inr shape \<Rightarrow>
          (if camera_type = ''vnir_old'' then put_subset 679 nan shape rfl_data
           else if camera_type = ''vnir_middle'' then put_subset 662 nan shape rfl_data
           else put_all shape rfl_data))"

text \<open>
  The body of the loop over the variables, for a variable that is not skipped: the
  variable is created, with the fill value when the template has one, its data are
  set, and the attributes are set, the fill value left out of them.
\<close>

definition copy_variable ::
  "'a \<Rightarrow> (string \<times> ncdim) list \<Rightarrow> 'a array3 \<Rightarrow> string \<Rightarrow> string \<Rightarrow> ('v, 'a, 'o) ncvar \<Rightarrow>
   error + ('v, 'a, 'o) ncvar" where
  "copy_variable nan dims rfl_data camera_type name variable =
     (let var_dict = var_atts variable;
          has_fill = (''_FillValue'' \<in> dom var_dict);
          created =
            (if has_fill
             then createVariable (var_datatype variable) (var_dimensions variable)
                    (var_dict ''_FillValue'')
             else createVariable (var_datatype variable) (var_dimensions variable) None);
          var_dict' = (if has_fill then var_dict(''_FillValue'' := None) else var_dict);
          written =
            (if name \<noteq> ''rfl_img''
             then Inr (read_write (var_atts variable) (var_datatype variable)
                         (var_data variable))
             else map_sum id Cube
                    (put_rfl_img nan dims (var_dimensions variable) rfl_data camera_type))
      in case written of
           Inl e \<Rightarrow> Inl e
         | Inr data \<Rightarrow>
             Inr (created\<lparr>var_atts := setncatts (var_atts created) var_dict',
                          var_data := data\<rparr>))"

fun copy_variables ::
  "'a \<Rightarrow> (string \<times> ncdim) list \<Rightarrow> 'a array3 \<Rightarrow> string \<Rightarrow> (string \<times> ('v, 'a, 'o) ncvar) list \<Rightarrow>
   error + (string \<times> ('v, 'a, 'o) ncvar) list" where
  "copy_variables nan dims rfl_data camera_type [] = Inr []"
| "copy_variables nan dims rfl_data camera_type ((name, variable) # rest) =
     (if name = ''Google_Map_View'' then copy_variables nan dims rfl_data camera_type rest
      else (case copy_variable nan dims rfl_data camera_type name variable of
              Inl e \<Rightarrow> Inl e
            | Inr v \<Rightarrow>
                (case copy_variables nan dims rfl_data camera_type rest of
                   Inl e \<Rightarrow> Inl e
                 | Inr vs \<Rightarrow> Inr ((name, v) # vs))))"

text \<open>
  The lengths of the dimensions after the loop: every variable copied grows the
  unlimited dimensions it has. \<open>rfl_img\<close> is written over dimensions of fixed size only,
  which no growth touches, so the lengths are followed apart from the variables.
\<close>

fun grown_dims ::
  "(string \<times> ncdim) list \<Rightarrow> (string \<times> ('v, 'a, 'o) ncvar) list \<Rightarrow> (string \<times> ncdim) list \<Rightarrow>
   (string \<times> ncdim) list" where
  "grown_dims src_dims [] dims = dims"
| "grown_dims src_dims ((name, variable) # rest) dims =
     (if name = ''Google_Map_View'' \<or> name = ''rfl_img'' then grown_dims src_dims rest dims
      else grown_dims src_dims rest (grow_dims src_dims (var_dimensions variable) dims))"

text \<open>
  \<open>update_netcdf\<close>: the template \<open>src\<close> is the file opened for reading, the result is
  the file written. When the template has no \<open>rfl_img\<close> a variable of that name, of type
  \<open>f4\<close> and with no dimension, is created; the assignment that follows it in the source
  rebinds an entry of a dictionary of the program and writes nothing to the file.
\<close>

definition update_netcdf ::
  "'a \<Rightarrow> ('v, 'a, 'o) dataset \<Rightarrow> 'a array3 \<Rightarrow> string \<Rightarrow> error + ('v, 'a, 'o) dataset" where
  "update_netcdf nan src rfl_data camera_type =
     (let dims =
            map (\<lambda>(name, dimension).
                   createDimension name
                     (if \<not> dim_isunlimited dimension then Some (dim_len dimension) else None))
                (ds_dimensions src)
      in case copy_variables nan dims rfl_data camera_type (ds_variables src) of
           Inl e \<Rightarrow> Inl e
         | Inr vars \<Rightarrow>
             Inr \<lparr>ds_atts = setncatts Map.empty (ds_atts src),
                  ds_dimensions = grown_dims (ds_dimensions src) (ds_variables src) dims,
                  ds_variables =
                    vars @
                    (if ''rfl_img'' \<notin> fst ` set (ds_variables src)
                     then [(''rfl_img'', createVariable ''f4'' [] None)]
                     else [])\<rparr>)"

section \<open>The calibration: \<open>apply_calibration\<close>\<close>

text \<open>
  What the program reads from outside: which paths exist and which are folders, the raw
  cube that the header opens, the listing of the logger folder with the content of
  each file, the three coefficient arrays of each camera type (\<open>None\<close> for a file that
  is not there), and the file that \<open>update_netcdf\<close> opens as its template. The value
  \<open>np.nan\<close> is the cell \<open>NaN\<close>.
\<close>

record ('v, 'a, 'o) world =
  w_exists :: "string \<Rightarrow> bool"
  w_isdir :: "string \<Rightarrow> bool"
  w_raw :: "'a array3"
  w_listdir :: "(string \<times> 'a reading list option) list"
  w_best_matched :: "string \<Rightarrow> int list option"
  w_bias :: "string \<Rightarrow> 'a list option"
  w_gain :: "string \<Rightarrow> 'a list option"
  w_template :: "('v, 'a cell, 'o) dataset option"

definition np_load :: "'b option \<Rightarrow> error + 'b" where
  "np_load f = (case f of None \<Rightarrow> Inl (FileNotFoundError ''No such file or directory'') | Some a \<Rightarrow> Inr a)"

definition read_envlogs ::
  "string \<Rightarrow> int option \<Rightarrow> (string \<times> 'a reading list option) list \<Rightarrow>
   error + (int list \<times> 'a matrix)" where
  \<comment> \<open>the empty array of \<open>image_scanning_time\<close> columns, then the loop over the folder\<close>
  "read_envlogs camera_type image_scanning_time listing =
     (case image_scanning_time of
        None \<Rightarrow> Inl (TypeError ''an integer is required'')
      | Some c \<Rightarrow>
          (if c < 0 then Inl (ValueError ''negative dimensions not allowed'')
           else read_envlog_loop camera_type ([], \<lparr>ncols = nat c, rows = []\<rparr>) listing))"

definition match_and_mean ::
  "int option \<Rightarrow> string \<Rightarrow> int list \<Rightarrow> 'a::{semiring_1,inverse} matrix \<Rightarrow> error + 'a list" where
  \<comment> \<open>from the record count of the window to the mean spectrum\<close>
  "match_and_mean image_scanning_time timestamp envlog_tot_time envlog_spectra =
     (case image_scanning_time of
        None \<Rightarrow> Inl (TypeError ''unsupported operand type(s) for /'')
      | Some t \<Rightarrow>
          (case py_int (remove_char (CHR '':'') (get_local_time timestamp)) of
             Inl e \<Rightarrow> Inl e
           | Inr image_time \<Rightarrow>
               mean_spectrum image_time envlog_tot_time envlog_spectra
                 (num_irridiance_record t)))"

definition calibrate ::
  "('v, 'a::{semiring_1,inverse}, 'o) world \<Rightarrow> string \<Rightarrow> int option \<Rightarrow> int option \<Rightarrow> string \<Rightarrow>
   error + 'a cell array3" where
  \<comment> \<open>the calibrated path, from the reading of the logger files to \<open>rfl_data\<close>\<close>
  "calibrate w camera_type num_irradiance_bands image_scanning_time timestamp =
     (case read_envlogs camera_type image_scanning_time (w_listdir w) of
        Inl e \<Rightarrow> Inl e
      | Inr (envlog_tot_time, envlog_spectra) \<Rightarrow>
     (case match_and_mean image_scanning_time timestamp envlog_tot_time envlog_spectra of
        Inl e \<Rightarrow> Inl e
      | Inr mean \<Rightarrow>
     (case np_load (w_best_matched w camera_type) of
        Inl e \<Rightarrow> Inl e
      | Inr best_matched_index \<Rightarrow>
     (case project_spectrum mean best_matched_index num_irradiance_bands of
        Inl e \<Rightarrow> Inl e
      | Inr test_irridance_re \<Rightarrow>
     (case np_load (w_bias w camera_type) of
        Inl e \<Rightarrow> Inl e
      | Inr loaded_bias \<Rightarrow>
     (case np_load (w_gain w camera_type) of
        Inl e \<Rightarrow> Inl e
      | Inr loaded_gain \<Rightarrow>
          reflectance camera_type (w_raw w) test_irridance_re loaded_gain loaded_bias))))))"

definition open_and_update ::
  "('v, 'a, 'o) world \<Rightarrow> 'a cell array3 \<Rightarrow> string \<Rightarrow> error + ('v, 'a cell, 'o) dataset" where
  \<comment> \<open>\<open>update_netcdf\<close> on the file that the earlier workflow has left\<close>
  "open_and_update w rfl_data camera_type =
     (case w_template w of
        None \<Rightarrow> Inl (FileNotFoundError ''No such file or directory'')
      | Some src \<Rightarrow> update_netcdf NaN src rfl_data camera_type)"

text \<open>
  The first line of \<open>apply_calibration\<close> binds the tuple of \<open>get_camera_info\<close> to the
  four local variables \<open>camera_type\<close>, \<open>num_irradiance_bands\<close>, \<open>image_scanning_time\<close>,
  \<open>num_spectral_bands\<close>, by position. The result is the file written, or the exception.
  On the path without calibration the numbers of the raw cube are the cells written.
\<close>

definition apply_calibration ::
  "('v, 'a::{semiring_1,inverse}, 'o) world \<Rightarrow> string \<Rightarrow> string \<Rightarrow> string \<Rightarrow> string \<Rightarrow>
   error + ('v, 'a cell, 'o) dataset" where
  "apply_calibration w raw_filename sensor data_date timestamp =
     (case get_camera_info sensor data_date of
        (camera_type, num_irradiance_bands, image_scanning_time, num_spectral_bands) \<Rightarrow>
          (let hdr_filename = raw_filename @ ''.hdr'' in
           if \<not> w_exists w hdr_filename then
             Inl (RuntimeError (''Missing RAW associated file: '' @ [CHR 0x27] @ hdr_filename @ [CHR 0x27]))
           else if camera_type = ''swir_old_middle'' then
             open_and_update w (rollaxis_2_0 (finite_cells (w_raw w))) camera_type
           else
             (case calibrate w camera_type num_irradiance_bands image_scanning_time timestamp of
                Inl e \<Rightarrow> Inl e
              | Inr rfl_data \<Rightarrow> open_and_update w rfl_data camera_type)))"

section \<open>The entry point: \<open>perform_process\<close>\<close>

text \<open>
  The dictionary returned, with its keys \<open>code\<close> and \<open>error\<close>, and beside it the file
  written by the calibration, if any. The switch \<open>skip_memory_check\<close> and the outcome
  \<open>error_msg\<close> of the memory check are given; the template of the \<open>world\<close> is the file
  as the external workflow has left it.
\<close>

record proc_result =
  res_code :: int
  res_error :: "string option"

definition perform_process ::
  "('v, 'a::{semiring_1,inverse}, 'o) world \<Rightarrow> string list \<Rightarrow> string \<Rightarrow> bool \<Rightarrow> string option \<Rightarrow>
   string \<Rightarrow> string option \<Rightarrow> string \<Rightarrow> proc_result \<times> ('v, 'a cell, 'o) dataset option" where
  "perform_process w list_files environment_logger skip_memory_check error_msg sensor
     date_override timestamp =
     (let raw_file = get_needed_files list_files in
      if raw_file = None \<or> raw_file = Some [] then
        (\<lparr>res_code = - 1000,
          res_error = Some ''A RAW file was not found in the provided list''\<rparr>, None)
      else if \<not> w_isdir w environment_logger then
        (\<lparr>res_code = - 1001,
          res_error =
            Some (''The environmental logger folder was not found: '' @
                  [CHR 0x27] @ environment_logger @ [CHR 0x27])\<rparr>, None)
      else if \<not> skip_memory_check \<and> error_msg \<noteq> None \<and> error_msg \<noteq> Some [] then
        (\<lparr>res_code = - 1002,
          res_error = Some (''Try using the --skip_memory_check switch. '' @ the error_msg)\<rparr>, None)
      else
        (let raw_filename = the raw_file;
             chosen =
               (if date_override \<noteq> None \<and> date_override \<noteq> Some [] then the date_override
                else take 10 timestamp);
             data_date =
               replace_char (CHR ''_'') (CHR ''-'') (replace_char (CHR ''/'') (CHR ''-'') chosen)
         in case apply_calibration w raw_filename sensor data_date timestamp of
              Inl ex \<Rightarrow>
                (\<lparr>res_code = - 1004,
                  res_error =
                    Some (''Exception caught while applying calibration: '' @ str_error ex)\<rparr>,
                 None)
            | Inr written \<Rightarrow> (\<lparr>res_code = 0, res_error = None\<rparr>, Some written)))"

section \<open>Properties of the raw file selection\<close>

lemma endswith_suffix: "endswith s suf \<longleftrightarrow> (\<exists>pre. s = pre @ suf)"
proof
  assume h: "endswith s suf"
  then have "s = take (length s - length suf) s @ suf"
    by (metis append_take_drop_id endswith_def)
  then show "\<exists>pre. s = pre @ suf" ..
next
  assume "\<exists>pre. s = pre @ suf"
  then show "endswith s suf"
    by (auto simp: endswith_def)
qed

lemma get_needed_files_loop_filter:
  "get_needed_files_loop acc fs =
     (case filter (\<lambda>f. endswith f ''_raw'') fs of
        [] \<Rightarrow> acc
      | g # gs \<Rightarrow> Some (last (g # gs)))"
proof (induction fs arbitrary: acc)
  case Nil
  show ?case by simp
next
  case (Cons f fs)
  show ?case
    by (cases "filter (\<lambda>f. endswith f ''_raw'') fs") (simp_all add: Cons.IH)
qed

lemma filter_snoc_split:
  "filter P fs = ys @ [f] \<Longrightarrow> \<exists>pre post. fs = pre @ f # post \<and> filter P post = [] \<and> P f"
proof (induction fs arbitrary: ys rule: rev_induct)
  case Nil
  then show ?case by simp
next
  case (snoc x xs)
  show ?case
  proof (cases "P x")
    case True
    with snoc.prems have "f = x" by simp
    with True have "xs @ [x] = xs @ f # [] \<and> filter P [] = [] \<and> P f" by simp
    then show ?thesis by blast
  next
    case False
    with snoc.prems have "filter P xs = ys @ [f]" by simp
    from snoc.IH [OF this] obtain pre post
      where "xs = pre @ f # post" "filter P post = []" "P f" by blast
    with False have "xs @ [x] = pre @ f # (post @ [x]) \<and> filter P (post @ [x]) = [] \<and> P f"
      by simp
    then show ?thesis by blast
  qed
qed

text \<open>
  C10. The raw-file selection returns the last name of the list, in list order, that
  ends with \<open>_raw\<close>: the list splits as \<open>pre @ f # post\<close> where \<open>f\<close> ends with the
  suffix and no name of \<open>post\<close> does. It returns \<open>None\<close> exactly when no name of the
  list ends with the suffix.
\<close>

theorem get_needed_files_last_raw:
  "(get_needed_files fs = None \<longleftrightarrow> filter (\<lambda>f. endswith f ''_raw'') fs = []) \<and>
   (filter (\<lambda>f. endswith f ''_raw'') fs \<noteq> [] \<longrightarrow>
      get_needed_files fs = Some (last (filter (\<lambda>f. endswith f ''_raw'') fs))) \<and>
   (\<forall>f. get_needed_files fs = Some f \<longrightarrow>
      endswith f ''_raw'' \<and>
      (\<exists>pre post. fs = pre @ f # post \<and> filter (\<lambda>g. endswith g ''_raw'') post = []))"
proof -
  let ?P = "\<lambda>f. endswith f ''_raw''"
  have eq: "get_needed_files fs =
      (case filter ?P fs of [] \<Rightarrow> None | g # gs \<Rightarrow> Some (last (g # gs)))"
    by (simp add: get_needed_files_def get_needed_files_loop_filter)
  have a: "get_needed_files fs = None \<longleftrightarrow> filter ?P fs = []"
    by (simp add: eq split: list.split)
  have b: "filter ?P fs \<noteq> [] \<longrightarrow> get_needed_files fs = Some (last (filter ?P fs))"
    by (simp add: eq split: list.split)
  have c: "endswith f ''_raw'' \<and> (\<exists>pre post. fs = pre @ f # post \<and> filter ?P post = [])"
    if h: "get_needed_files fs = Some f" for f
  proof -
    from h a have ne: "filter ?P fs \<noteq> []" by auto
    with h b have fl: "f = last (filter ?P fs)" by simp
    from ne obtain ys where ys: "filter ?P fs = ys @ [f]"
      using fl by (metis append_butlast_last_id)
    from filter_snoc_split [OF ys] show ?thesis by blast
  qed
  from a b c show ?thesis by blast
qed

theorem get_needed_files_last_raw_witness:
  "filter (\<lambda>f. endswith f ''_raw'') [''a_raw'', ''b.hdr'', ''c_raw'', ''d_raw.hdr''] \<noteq> [] \<and>
   get_needed_files [''a_raw'', ''b.hdr'', ''c_raw'', ''d_raw.hdr''] = Some ''c_raw'' \<and>
   get_needed_files [''b.hdr'', ''raw''] = None"
  using get_needed_files_last_raw [of "[''a_raw'', ''b.hdr'', ''c_raw'', ''d_raw.hdr'']"]
    get_needed_files_last_raw [of "[''b.hdr'', ''raw'']"]
  by (simp add: endswith_def)

section \<open>Properties of the nearest-record search\<close>

lemma argmin_scan_spec:
  "(argmin_scan b bv k xs = b \<and> (\<forall>x\<in>set xs. bv \<le> x)) \<or>
   (k \<le> argmin_scan b bv k xs \<and> argmin_scan b bv k xs < k + length xs \<and>
    xs ! (argmin_scan b bv k xs - k) < bv \<and>
    (\<forall>j<length xs. xs ! (argmin_scan b bv k xs - k) \<le> xs ! j) \<and>
    (\<forall>j<argmin_scan b bv k xs - k. xs ! (argmin_scan b bv k xs - k) < xs ! j))"
proof (induction xs arbitrary: b bv k)
  case Nil
  show ?case by simp
next
  case (Cons x xs)
  show ?case
  proof (cases "x < bv")
    case True
    let ?r = "argmin_scan k x (Suc k) xs"
    have r: "argmin_scan b bv k (x # xs) = ?r" using True by simp
    from Cons.IH [of k x "Suc k"] show ?thesis
    proof
      assume a: "?r = k \<and> (\<forall>y\<in>set xs. x \<le> y)"
      then have "\<forall>j<length (x # xs). x \<le> (x # xs) ! j"
        by (auto simp: nth_Cons split: nat.split)
      with a True show ?thesis unfolding r by simp
    next
      assume a: "Suc k \<le> ?r \<and> ?r < Suc k + length xs \<and> xs ! (?r - Suc k) < x \<and>
        (\<forall>j<length xs. xs ! (?r - Suc k) \<le> xs ! j) \<and>
        (\<forall>j<?r - Suc k. xs ! (?r - Suc k) < xs ! j)"
      then obtain m where m: "?r - k = Suc m" "?r - Suc k = m"
        by (metis Suc_diff_le Suc_le_D diff_Suc_Suc Suc_le_mono)
      have n1: "(x # xs) ! (?r - k) = xs ! m" using m by simp
      have "\<forall>j<length (x # xs). xs ! m \<le> (x # xs) ! j"
        using a m by (auto simp: nth_Cons split: nat.split)
      moreover have "\<forall>j<?r - k. xs ! m < (x # xs) ! j"
        using a m by (auto simp: nth_Cons split: nat.split)
      moreover have "xs ! m < bv" using a m True by simp
      moreover have "k \<le> ?r" "?r < k + length (x # xs)" using a by simp_all
      ultimately show ?thesis unfolding r n1 by blast
    qed
  next
    case False
    let ?r = "argmin_scan b bv (Suc k) xs"
    have r: "argmin_scan b bv k (x # xs) = ?r" using False by simp
    from Cons.IH [of b bv "Suc k"] show ?thesis
    proof
      assume a: "?r = b \<and> (\<forall>y\<in>set xs. bv \<le> y)"
      with False show ?thesis unfolding r by auto
    next
      assume a: "Suc k \<le> ?r \<and> ?r < Suc k + length xs \<and> xs ! (?r - Suc k) < bv \<and>
        (\<forall>j<length xs. xs ! (?r - Suc k) \<le> xs ! j) \<and>
        (\<forall>j<?r - Suc k. xs ! (?r - Suc k) < xs ! j)"
      then obtain m where m: "?r - k = Suc m" "?r - Suc k = m"
        by (metis Suc_diff_le Suc_le_D diff_Suc_Suc Suc_le_mono)
      have n1: "(x # xs) ! (?r - k) = xs ! m" using m by simp
      have "\<forall>j<length (x # xs). xs ! m \<le> (x # xs) ! j"
        using a m False by (auto simp: nth_Cons split: nat.split)
      moreover have "\<forall>j<?r - k. xs ! m < (x # xs) ! j"
        using a m False by (auto simp: nth_Cons split: nat.split)
      moreover have "xs ! m < bv" using a m by simp
      moreover have "k \<le> ?r" "?r < k + length (x # xs)" using a by simp_all
      ultimately show ?thesis unfolding r n1 by blast
    qed
  qed
qed

lemma np_argmin_spec:
  assumes "xs \<noteq> []"
  shows "\<exists>i. np_argmin xs = Inr i \<and> i < length xs \<and>
           (\<forall>j<length xs. xs ! i \<le> xs ! j) \<and> (\<forall>j<i. xs ! i < xs ! j)"
proof -
  from assms obtain x rest where xs: "xs = x # rest" by (cases xs) auto
  let ?r = "argmin_scan 0 x 1 rest"
  have eq: "np_argmin xs = Inr ?r" by (simp add: np_argmin_def xs)
  from argmin_scan_spec [of 0 x 1 rest]
  have "?r < length xs \<and> (\<forall>j<length xs. xs ! ?r \<le> xs ! j) \<and> (\<forall>j<?r. xs ! ?r < xs ! j)"
  proof
    assume a: "?r = 0 \<and> (\<forall>y\<in>set rest. x \<le> y)"
    then have "\<forall>j<length xs. x \<le> xs ! j"
      by (auto simp: xs nth_Cons split: nat.split)
    with a show ?thesis by (simp add: xs)
  next
    assume a: "1 \<le> ?r \<and> ?r < 1 + length rest \<and> rest ! (?r - 1) < x \<and>
        (\<forall>j<length rest. rest ! (?r - 1) \<le> rest ! j) \<and>
        (\<forall>j<?r - 1. rest ! (?r - 1) < rest ! j)"
    then obtain m where m: "?r = Suc m" by (cases ?r) auto
    have "\<forall>j<length xs. rest ! m \<le> xs ! j"
      using a m by (auto simp: xs nth_Cons split: nat.split)
    moreover have "\<forall>j<Suc m. rest ! m < xs ! j"
      using a m by (auto simp: xs nth_Cons split: nat.split)
    moreover have "Suc m < length xs" using a m by (simp add: xs)
    ultimately show ?thesis unfolding m by (simp add: xs)
  qed
  with eq show ?thesis by blast
qed


lemma float64_of_int_exact: "\<bar>x\<bar> \<le> 2 ^ 53 \<Longrightarrow> float64_of_int x = Inr x"
  by (simp add: float64_of_int_def)

lemma abs_diff_time_exact:
  "\<forall>t\<in>set envlog_tot_time. \<bar>image_time - t\<bar> \<le> 2 ^ 53 \<Longrightarrow>
   abs_diff_time image_time envlog_tot_time = Inr (map (\<lambda>t. \<bar>image_time - t\<bar>) envlog_tot_time)"
  by (induction envlog_tot_time) (simp_all add: float64_of_int_exact)

text \<open>
  Beyond \<open>2 ^ 53\<close> the stored differences are rounded and the smallest stored value may
  stand at an earlier index than the smallest difference: the differences \<open>2 ^ 53 + 1\<close>
  and \<open>2 ^ 53\<close> are both stored as \<open>2 ^ 53\<close>, and the index is 0.
\<close>

lemma ind_closet_time_rounded:
  "ind_closet_time 0 [9007199254740993, 9007199254740992] = Inr 0"
  by code_simp

text \<open>
  C8. Let the time sequence be not empty and let every absolute difference to the
  image time be at most \<open>2 ^ 53\<close>, so that it is stored exactly; the times of a day,
  six digits each, are far below. Then the matcher returns an index of the sequence at
  which the absolute difference to the image time is minimal, and every earlier index
  has a strictly larger difference, so of several minimal entries the first is taken.
  The first entry equal to the image time, when there is one, is the index returned.
  The window size has no part in the index: for every spectrum array and every window
  size the rows averaged start at that index.
\<close>

theorem ind_closet_time_first_minimum:
  assumes "envlog_tot_time \<noteq> []"
    and "\<forall>t\<in>set envlog_tot_time. \<bar>image_time - t\<bar> \<le> 2 ^ 53"
  shows "\<exists>i. ind_closet_time image_time envlog_tot_time = Inr i \<and>
           i < length envlog_tot_time \<and>
           (\<forall>j<length envlog_tot_time.
              \<bar>image_time - envlog_tot_time ! i\<bar> \<le> \<bar>image_time - envlog_tot_time ! j\<bar>) \<and>
           (\<forall>j<i. \<bar>image_time - envlog_tot_time ! i\<bar> < \<bar>image_time - envlog_tot_time ! j\<bar>) \<and>
           (\<forall>k<length envlog_tot_time.
              envlog_tot_time ! k = image_time \<and> (\<forall>j<k. envlog_tot_time ! j \<noteq> image_time)
              \<longrightarrow> i = k) \<and>
           (\<forall>(envlog_spectra :: 'a::{semiring_1,inverse} matrix) n.
              mean_spectrum image_time envlog_tot_time envlog_spectra n =
                np_mean_axis0 (ncols envlog_spectra)
                  (window_rows i n (rows envlog_spectra)))"
proof -
  let ?ts = "envlog_tot_time"
  let ?d = "map (\<lambda>t. \<bar>image_time - t\<bar>) ?ts"
  have stored: "abs_diff_time image_time ?ts = Inr ?d"
    using assms(2) by (rule abs_diff_time_exact)
  have ne: "?d \<noteq> []" using assms(1) by simp
  have len: "length ?d = length ?ts" by simp
  have nth: "?d ! j = \<bar>image_time - ?ts ! j\<bar>" if "j < length ?ts" for j
    using that by simp
  from np_argmin_spec [OF ne] obtain i where i:
    "np_argmin ?d = Inr i" "i < length ?d"
    "\<forall>j<length ?d. ?d ! i \<le> ?d ! j" "\<forall>j<i. ?d ! i < ?d ! j"
    by blast
  have il: "i < length ?ts" using i(2) len by simp
  have a: "ind_closet_time image_time ?ts = Inr i"
    by (simp add: ind_closet_time_def stored i(1))
  have b: "\<forall>j<length ?ts. \<bar>image_time - ?ts ! i\<bar> \<le> \<bar>image_time - ?ts ! j\<bar>"
    using i(3) il nth len by metis
  have c: "\<forall>j<i. \<bar>image_time - ?ts ! i\<bar> < \<bar>image_time - ?ts ! j\<bar>"
  proof (intro allI impI)
    fix j assume ji: "j < i"
    then have "j < length ?ts" using il by simp
    with i(4) ji il nth show "\<bar>image_time - ?ts ! i\<bar> < \<bar>image_time - ?ts ! j\<bar>"
      by metis
  qed
  have d: "i = k"
    if k: "k < length ?ts" "?ts ! k = image_time" "\<forall>j<k. ?ts ! j \<noteq> image_time" for k
  proof -
    from b k(1) k(2) have "\<bar>image_time - ?ts ! i\<bar> \<le> 0" by fastforce
    then have eq: "?ts ! i = image_time" by simp
    have "\<not> k < i"
    proof
      assume "k < i"
      with c have "\<bar>image_time - ?ts ! i\<bar> < \<bar>image_time - ?ts ! k\<bar>" by blast
      with k(2) show False by simp
    qed
    moreover have "\<not> i < k" using k(3) eq by blast
    ultimately show ?thesis by simp
  qed
  have e: "mean_spectrum image_time ?ts envlog_spectra n =
             np_mean_axis0 (ncols envlog_spectra) (window_rows i n (rows envlog_spectra))"
    for envlog_spectra :: "'a matrix" and n
    by (simp add: mean_spectrum_def a)
  from a il b c d e show ?thesis by blast
qed

theorem ind_closet_time_first_minimum_witness:
  "[120000, 123850, 123848, 123849, 123849] \<noteq> ([] :: int list) \<and>
   list_all (\<lambda>t. \<bar>123849 - t\<bar> \<le> (2 ^ 53 :: int)) [120000, 123850, 123848, 123849, 123849] \<and>
   ind_closet_time 123849 [120000, 123850, 123848, 123849, 123849] = Inr 3 \<and>
   ind_closet_time 123849 [120000, 123850, 123848] = Inr 1"
  using ind_closet_time_first_minimum [of "[120000, 123850, 123848, 123849, 123849]" 123849]
  by (simp add: ind_closet_time_def float64_of_int_def np_argmin_def)

section \<open>Properties of the camera profiles\<close>

text \<open>
  C4. Profile resolution is a function of the sensor and the date, defined for every
  pair. For \<open>VNIR\<close> the brackets are: before \<open>2018-08-18\<close>, from \<open>2018-08-18\<close> and
  before \<open>2019-02-26\<close>, and from \<open>2019-02-26\<close>; for \<open>SWIR\<close>: before \<open>2019-02-26\<close> and
  from it, the earlier bracket having no band count and no scanning time. Each boundary
  date belongs to the later bracket.
\<close>

theorem get_camera_info_brackets:
  "get_camera_info ''VNIR'' ''2018-08-18'' = (''vnir_middle'', Some 939, Some 1024, Some 540) \<and>
   get_camera_info ''VNIR'' ''2019-02-26'' = (''vnir_new'', Some 939, Some 3648, Some 210) \<and>
   get_camera_info ''SWIR'' ''2019-02-26'' = (''swir_new'', Some 275, Some 512, Some 210) \<and>
   (\<forall>d. d < ''2019-02-26'' \<longrightarrow>
      get_camera_info ''SWIR'' d = (''swir_old_middle'', None, None, None)) \<and>
   (\<forall>d. ''2019-02-26'' \<le> d \<longrightarrow>
      get_camera_info ''SWIR'' d = (''swir_new'', Some 275, Some 512, Some 210)) \<and>
   (\<forall>d. d < ''2018-08-18'' \<longrightarrow>
      get_camera_info ''VNIR'' d = (''vnir_old'', Some 955, Some 1024, Some 540)) \<and>
   (\<forall>d. ''2018-08-18'' \<le> d \<and> d < ''2019-02-26'' \<longrightarrow>
      get_camera_info ''VNIR'' d = (''vnir_middle'', Some 939, Some 1024, Some 540)) \<and>
   (\<forall>d. ''2019-02-26'' \<le> d \<longrightarrow>
      get_camera_info ''VNIR'' d = (''vnir_new'', Some 939, Some 3648, Some 210))"
proof -
  have lt: "''2018-08-18'' < ''2019-02-26''" by simp
  have v3: "get_camera_info ''VNIR'' d = (''vnir_new'', Some 939, Some 3648, Some 210)"
    if "''2019-02-26'' \<le> d" for d
  proof -
    from that have n2: "\<not> d < ''2019-02-26''" by (simp add: not_less)
    have n1: "\<not> d < ''2018-08-18''"
    proof
      assume "d < ''2018-08-18''"
      then have "d < ''2019-02-26''" using lt by (rule less_trans)
      with n2 show False ..
    qed
    from n1 n2 show ?thesis by (simp add: get_camera_info_def)
  qed
  have v2: "get_camera_info ''VNIR'' d = (''vnir_middle'', Some 939, Some 1024, Some 540)"
    if "''2018-08-18'' \<le> d \<and> d < ''2019-02-26''" for d
  proof -
    from that have "\<not> d < ''2018-08-18''" by (simp add: not_less)
    with that show ?thesis by (simp add: get_camera_info_def)
  qed
  have v1: "get_camera_info ''VNIR'' d = (''vnir_old'', Some 955, Some 1024, Some 540)"
    if "d < ''2018-08-18''" for d
    using that by (simp add: get_camera_info_def)
  have s1: "get_camera_info ''SWIR'' d = (''swir_old_middle'', None, None, None)"
    if "d < ''2019-02-26''" for d
    using that by (simp add: get_camera_info_def)
  have s2: "get_camera_info ''SWIR'' d = (''swir_new'', Some 275, Some 512, Some 210)"
    if "''2019-02-26'' \<le> d" for d
  proof -
    from that have "\<not> d < ''2019-02-26''" by (simp add: not_less)
    then show ?thesis by (simp add: get_camera_info_def)
  qed
  have b1: "get_camera_info ''VNIR'' ''2018-08-18'' = (''vnir_middle'', Some 939, Some 1024, Some 540)"
    by (rule v2) simp
  have b2: "get_camera_info ''VNIR'' ''2019-02-26'' = (''vnir_new'', Some 939, Some 3648, Some 210)"
    by (rule v3) simp
  have b3: "get_camera_info ''SWIR'' ''2019-02-26'' = (''swir_new'', Some 275, Some 512, Some 210)"
    by (rule s2) simp
  from b1 b2 b3 s1 s2 v1 v2 v3 show ?thesis by blast
qed

theorem get_camera_info_brackets_witness:
  "''2019-02-25'' < ''2019-02-26'' \<and>
   get_camera_info ''SWIR'' ''2019-02-25'' = (''swir_old_middle'', None, None, None) \<and>
   ''2018-08-17'' < ''2018-08-18'' \<and>
   get_camera_info ''VNIR'' ''2018-08-17'' = (''vnir_old'', Some 955, Some 1024, Some 540) \<and>
   ''2018-08-18'' \<le> ''2019-02-25'' \<and>
   get_camera_info ''VNIR'' ''2019-02-25'' = (''vnir_middle'', Some 939, Some 1024, Some 540) \<and>
   ''2019-02-26'' \<le> ''2020-06-01'' \<and>
   get_camera_info ''VNIR'' ''2020-06-01'' = (''vnir_new'', Some 939, Some 3648, Some 210) \<and>
   get_camera_info ''SWIR'' ''2020-06-01'' = (''swir_new'', Some 275, Some 512, Some 210)"
  using get_camera_info_brackets by simp

text \<open>
  C9. The claim that a sensor value other than \<open>VNIR\<close> and \<open>SWIR\<close> is rejected does not
  hold: the source tests for \<open>VNIR\<close> only and every other value takes the branch of
  \<open>SWIR\<close>, which its documentation calls the default.
\<close>

theorem get_camera_info_unknown_sensor_counterexample:
  "get_camera_info ''THERMAL'' ''2020-06-01'' = (''swir_new'', Some 275, Some 512, Some 210)"
  by (simp add: get_camera_info_def)

text \<open>
  C9, as amended. For every sensor value other than \<open>VNIR\<close>, supported or not, the
  resolution returns the profile that \<open>SWIR\<close> has for the same date; no sensor value
  and no date make it fail.
\<close>

theorem get_camera_info_default_sensor:
  "sensor \<noteq> ''VNIR'' \<Longrightarrow> get_camera_info sensor data_date = get_camera_info ''SWIR'' data_date"
  by (simp add: get_camera_info_def)

theorem get_camera_info_default_sensor_witness:
  "''THERMAL'' \<noteq> ''VNIR'' \<and>
   get_camera_info ''THERMAL'' ''2019-01-01'' = get_camera_info ''SWIR'' ''2019-01-01'' \<and>
   get_camera_info ''SWIR'' ''2019-01-01'' = (''swir_old_middle'', None, None, None)"
  using get_camera_info_default_sensor [of "''THERMAL''" "''2019-01-01''"]
  by (simp add: get_camera_info_def)

section \<open>Properties of the reflectance computation\<close>

lemma array3_ok_iff:
  "array3_ok a \<longleftrightarrow>
     length (cells a) = dim0 a \<and>
     (\<forall>r<dim0 a. length (cells a ! r) = dim1 a \<and>
        (\<forall>c<dim1 a. length (cells a ! r ! c) = dim2 a))"
  by (auto simp: array3_ok_def list_all_length)

lemma array3_ok_take_bands: "array3_ok a \<Longrightarrow> array3_ok (take_bands n a)"
  by (simp add: array3_ok_iff take_bands_def min.commute)

lemma take_bands_nth:
  "array3_ok a \<Longrightarrow> r < dim0 a \<Longrightarrow> c < dim1 a \<Longrightarrow> b < min n (dim2 a) \<Longrightarrow>
   cells (take_bands n a) ! r ! c ! b = cells a ! r ! c ! b"
  by (simp add: array3_ok_iff take_bands_def)

lemma irrad2dn_same_length:
  assumes "length g = n" "length p = n" "length bs = n"
  shows "\<exists>ref. irrad2dn g p bs = Inr ref \<and> length ref = n \<and>
           (\<forall>b<n. ref ! b = g ! b * p ! b + bs ! b)"
  using assms by (simp add: irrad2dn_def bcast2_def)

lemma divide_roll_cells:
  fixes a :: "'a::{zero,inverse} array3"
  assumes ok: "array3_ok a" and len: "length d = dim2 a"
  shows "\<exists>q. divide_bands a d = Inr q \<and> array3_ok (rollaxis_2_0 q) \<and>
           dim0 (rollaxis_2_0 q) = dim2 a \<and> dim1 (rollaxis_2_0 q) = dim0 a \<and>
           dim2 (rollaxis_2_0 q) = dim1 a \<and>
           (\<forall>b<dim2 a. \<forall>r<dim0 a. \<forall>c<dim1 a.
              cells (rollaxis_2_0 q) ! b ! r ! c = np_divide (cells a ! r ! c ! b) (d ! b))"
proof -
  let ?q = "\<lparr>dim0 = dim0 a, dim1 = dim1 a, dim2 = dim2 a,
             cells = map (map (\<lambda>q. map2 np_divide q d)) (cells a)\<rparr>"
  have L0: "length (cells a) = dim0 a"
    and L1: "\<And>r. r < dim0 a \<Longrightarrow> length (cells a ! r) = dim1 a"
    and L2: "\<And>r c. r < dim0 a \<Longrightarrow> c < dim1 a \<Longrightarrow> length (cells a ! r ! c) = dim2 a"
    using ok by (simp_all add: array3_ok_iff)
  have dv: "divide_bands a d = Inr ?q" using len by (simp add: divide_bands_def)
  have cellq: "cells ?q ! r ! c ! b = np_divide (cells a ! r ! c ! b) (d ! b)"
    if "r < dim0 a" "c < dim1 a" "b < dim2 a" for r c b
    using that L0 L1 L2 len by simp
  let ?out = "rollaxis_2_0 ?q"
  have okout: "array3_ok ?out"
    using L0 L1 by (simp add: array3_ok_iff rollaxis_2_0_def)
  have cellout: "cells ?out ! b ! r ! c = cells ?q ! r ! c ! b"
    if "r < dim0 a" "c < dim1 a" "b < dim2 a" for r c b
    using that L0 L1 by (simp add: rollaxis_2_0_def)
  have dims: "dim0 ?out = dim2 a" "dim1 ?out = dim0 a" "dim2 ?out = dim1 a"
    by (simp_all add: rollaxis_2_0_def)
  have "\<forall>b<dim2 a. \<forall>r<dim0 a. \<forall>c<dim1 a.
          cells ?out ! b ! r ! c = np_divide (cells a ! r ! c ! b) (d ! b)"
    using cellout cellq by simp
  with okout dims dv show ?thesis by simp
qed


lemma reflectance_core:
  fixes a :: "'a::{zero,plus,times,inverse} array3"
  assumes ok: "array3_ok a" and lp: "length p = dim2 a"
    and lg: "length g = dim2 a" and lb: "length bs = dim2 a"
  shows "\<exists>out. divide_and_roll a p g bs = Inr out \<and>
           array3_ok out \<and> dim0 out = dim2 a \<and> dim1 out = dim0 a \<and> dim2 out = dim1 a \<and>
           (\<forall>b<dim2 a. \<forall>r<dim0 a. \<forall>c<dim1 a.
              cells out ! b ! r ! c = np_divide (cells a ! r ! c ! b) (g ! b * p ! b + bs ! b))"
proof -
  from irrad2dn_same_length [OF lg lp lb] obtain ref where ref:
    "irrad2dn g p bs = Inr ref" "length ref = dim2 a"
    "\<forall>b<dim2 a. ref ! b = g ! b * p ! b + bs ! b"
    by blast
  from divide_roll_cells [OF ok ref(2)] obtain q where q:
    "divide_bands a ref = Inr q" "array3_ok (rollaxis_2_0 q)"
    "dim0 (rollaxis_2_0 q) = dim2 a" "dim1 (rollaxis_2_0 q) = dim0 a"
    "dim2 (rollaxis_2_0 q) = dim1 a"
    "\<forall>b<dim2 a. \<forall>r<dim0 a. \<forall>c<dim1 a.
       cells (rollaxis_2_0 q) ! b ! r ! c = np_divide (cells a ! r ! c ! b) (ref ! b)"
    by blast
  have "\<forall>b<dim2 a. \<forall>r<dim0 a. \<forall>c<dim1 a.
          cells (rollaxis_2_0 q) ! b ! r ! c =
            np_divide (cells a ! r ! c ! b) (g ! b * p ! b + bs ! b)"
    using q(6) ref(3) by simp
  with ref(1) q(1-5) show ?thesis by (simp add: divide_and_roll_def)
qed

lemma reflectance_subset:
  fixes img_dn :: "'a::{zero,plus,times,inverse} array3"
  assumes ok: "array3_ok img_dn"
    and lp: "min k (length p) = min k (dim2 img_dn)"
    and lg: "length g = min k (dim2 img_dn)" and lb: "length bs = min k (dim2 img_dn)"
  shows "\<exists>out. divide_and_roll (take_bands k img_dn) (take k p) g bs = Inr out \<and>
           array3_ok out \<and> dim0 out = min k (dim2 img_dn) \<and> dim1 out = dim0 img_dn \<and>
           dim2 out = dim1 img_dn \<and>
           (\<forall>b<min k (dim2 img_dn). \<forall>r<dim0 img_dn. \<forall>c<dim1 img_dn.
              cells out ! b ! r ! c =
                np_divide (cells img_dn ! r ! c ! b) (g ! b * p ! b + bs ! b))"
proof -
  let ?a = "take_bands k img_dn"
  have d: "dim0 ?a = dim0 img_dn" "dim1 ?a = dim1 img_dn" "dim2 ?a = min k (dim2 img_dn)"
    by (simp_all add: take_bands_def)
  have oka: "array3_ok ?a" using ok by (rule array3_ok_take_bands)
  have lp': "length (take k p) = dim2 ?a" using lp by (simp add: d min.commute)
  from reflectance_core [OF oka lp', of g bs] lg lb obtain out where out:
    "divide_and_roll ?a (take k p) g bs = Inr out"
    "array3_ok out" "dim0 out = dim2 ?a" "dim1 out = dim0 ?a" "dim2 out = dim1 ?a"
    "\<forall>b<dim2 ?a. \<forall>r<dim0 ?a. \<forall>c<dim1 ?a.
       cells out ! b ! r ! c = np_divide (cells ?a ! r ! c ! b) (g ! b * take k p ! b + bs ! b)"
    unfolding d by blast
  have "cells out ! b ! r ! c = np_divide (cells img_dn ! r ! c ! b) (g ! b * p ! b + bs ! b)"
    if "b < min k (dim2 img_dn)" "r < dim0 img_dn" "c < dim1 img_dn" for b r c
  proof -
    have "cells out ! b ! r ! c =
            np_divide (cells ?a ! r ! c ! b) (g ! b * take k p ! b + bs ! b)"
      using out(6) that d by simp
    moreover have "cells ?a ! r ! c ! b = cells img_dn ! r ! c ! b"
      using ok that by (simp add: take_bands_nth)
    moreover have "take k p ! b = p ! b" using that by simp
    ultimately show ?thesis by simp
  qed
  with out(1-5) d show ?thesis by simp
qed

lemma reflectance_cells:
  fixes img_dn :: "'a::{zero,plus,times,inverse} array3"
  assumes ok: "array3_ok img_dn"
    and nb: "nb = (if camera_type = ''vnir_old'' then min 679 (dim2 img_dn)
                   else if camera_type = ''vnir_middle'' then min 662 (dim2 img_dn)
                   else dim2 img_dn)"
    and lp: "(if camera_type = ''vnir_old'' then min 679 (length test_irridance_re)
              else if camera_type = ''vnir_middle'' then min 662 (length test_irridance_re)
              else length test_irridance_re) = nb"
    and lg: "length loaded_gain = nb" and lb: "length loaded_bias = nb"
  shows "\<exists>rfl_data.
           reflectance camera_type img_dn test_irridance_re loaded_gain loaded_bias = Inr rfl_data \<and>
           array3_ok rfl_data \<and>
           dim0 rfl_data = nb \<and> dim1 rfl_data = dim0 img_dn \<and> dim2 rfl_data = dim1 img_dn \<and>
           (\<forall>b<nb. \<forall>r<dim0 img_dn. \<forall>c<dim1 img_dn.
              cells rfl_data ! b ! r ! c =
                np_divide (cells img_dn ! r ! c ! b)
                  (loaded_gain ! b * test_irridance_re ! b + loaded_bias ! b))"
proof (cases "camera_type = ''vnir_old''")
  case True
  with nb lp lg lb have h: "min 679 (length test_irridance_re) = min 679 (dim2 img_dn)"
    "length loaded_gain = min 679 (dim2 img_dn)" "length loaded_bias = min 679 (dim2 img_dn)"
    "nb = min 679 (dim2 img_dn)"
    by simp_all
  from reflectance_subset [OF ok h(1) h(2) h(3)] show ?thesis
    unfolding h(4) by (simp add: reflectance_def True)
next
  case False
  note old = False
  show ?thesis
  proof (cases "camera_type = ''vnir_middle''")
    case True
    with old nb lp lg lb have h: "min 662 (length test_irridance_re) = min 662 (dim2 img_dn)"
      "length loaded_gain = min 662 (dim2 img_dn)" "length loaded_bias = min 662 (dim2 img_dn)"
      "nb = min 662 (dim2 img_dn)"
      by simp_all
    from reflectance_subset [OF ok h(1) h(2) h(3)] show ?thesis
      unfolding h(4) by (simp add: reflectance_def True)
  next
    case False
    with old nb lp lg lb have h: "length test_irridance_re = dim2 img_dn"
      "length loaded_gain = dim2 img_dn" "length loaded_bias = dim2 img_dn"
      "nb = dim2 img_dn"
      by simp_all
    from reflectance_core [OF ok h(1) h(2) h(3)] show ?thesis
      unfolding h(4) by (simp add: reflectance_def old False)
  qed
qed

text \<open>
  C1. For a well-formed raw cube of rows, columns and bands, a projected spectrum and
  gain and bias arrays, all of the band length that the camera type keeps (the first
  679 or 662 bands for the two older cameras, every band otherwise), the computation
  succeeds and the result has the bands as its first axis, then the rows and the
  columns. Each of its cells is the quotient of the raw cell by the reference of its
  band, gain times spectrum plus bias: where the reference is not zero the cell is the
  number raw over reference, and where it is zero the cell is not a number or an
  infinity. With raw cells 4, gain 1, bias 0 and spectrum 2 every cell of the result is
  the number 2. The numbers are those of a field of characteristic zero: rounding is
  not modelled.
\<close>

theorem reflectance_elementwise:
  fixes img_dn :: "'a::field_char_0 array3"
  assumes "array3_ok img_dn"
    and "nb = (if camera_type = ''vnir_old'' then min 679 (dim2 img_dn)
               else if camera_type = ''vnir_middle'' then min 662 (dim2 img_dn)
               else dim2 img_dn)"
    and "(if camera_type = ''vnir_old'' then min 679 (length test_irridance_re)
          else if camera_type = ''vnir_middle'' then min 662 (length test_irridance_re)
          else length test_irridance_re) = nb"
    and "length loaded_gain = nb" and "length loaded_bias = nb"
  shows "\<exists>rfl_data.
           reflectance camera_type img_dn test_irridance_re loaded_gain loaded_bias = Inr rfl_data \<and>
           array3_ok rfl_data \<and>
           dim0 rfl_data = nb \<and> dim1 rfl_data = dim0 img_dn \<and> dim2 rfl_data = dim1 img_dn \<and>
           (\<forall>b<nb. \<forall>r<dim0 img_dn. \<forall>c<dim1 img_dn.
              cells rfl_data ! b ! r ! c =
                np_divide (cells img_dn ! r ! c ! b)
                  (loaded_gain ! b * test_irridance_re ! b + loaded_bias ! b)) \<and>
           (\<forall>b<nb. loaded_gain ! b * test_irridance_re ! b + loaded_bias ! b \<noteq> 0 \<longrightarrow>
              (\<forall>r<dim0 img_dn. \<forall>c<dim1 img_dn.
                 cells rfl_data ! b ! r ! c =
                   Finite (cells img_dn ! r ! c ! b /
                             (loaded_gain ! b * test_irridance_re ! b + loaded_bias ! b)))) \<and>
           (\<forall>b<nb. loaded_gain ! b * test_irridance_re ! b + loaded_bias ! b = 0 \<longrightarrow>
              (\<forall>r<dim0 img_dn. \<forall>c<dim1 img_dn.
                 cells rfl_data ! b ! r ! c =
                   (if cells img_dn ! r ! c ! b = 0 then NaN else Infinite))) \<and>
           ((\<forall>b<nb. loaded_gain ! b = 1 \<and> loaded_bias ! b = 0 \<and> test_irridance_re ! b = 2 \<and>
                (\<forall>r<dim0 img_dn. \<forall>c<dim1 img_dn. cells img_dn ! r ! c ! b = 4)) \<longrightarrow>
            (\<forall>b<nb. \<forall>r<dim0 img_dn. \<forall>c<dim1 img_dn. cells rfl_data ! b ! r ! c = Finite 2))"
proof -
  from reflectance_cells [OF assms] obtain rfl_data where r:
    "reflectance camera_type img_dn test_irridance_re loaded_gain loaded_bias = Inr rfl_data"
    "array3_ok rfl_data" "dim0 rfl_data = nb" "dim1 rfl_data = dim0 img_dn"
    "dim2 rfl_data = dim1 img_dn"
    and cell: "\<forall>b<nb. \<forall>r<dim0 img_dn. \<forall>c<dim1 img_dn.
       cells rfl_data ! b ! r ! c =
         np_divide (cells img_dn ! r ! c ! b)
           (loaded_gain ! b * test_irridance_re ! b + loaded_bias ! b)"
    by blast
  have nz: "\<forall>b<nb. loaded_gain ! b * test_irridance_re ! b + loaded_bias ! b \<noteq> 0 \<longrightarrow>
              (\<forall>r<dim0 img_dn. \<forall>c<dim1 img_dn.
                 cells rfl_data ! b ! r ! c =
                   Finite (cells img_dn ! r ! c ! b /
                             (loaded_gain ! b * test_irridance_re ! b + loaded_bias ! b)))"
    using cell by (simp add: np_divide_def)
  have z: "\<forall>b<nb. loaded_gain ! b * test_irridance_re ! b + loaded_bias ! b = 0 \<longrightarrow>
              (\<forall>r<dim0 img_dn. \<forall>c<dim1 img_dn.
                 cells rfl_data ! b ! r ! c =
                   (if cells img_dn ! r ! c ! b = 0 then NaN else Infinite))"
    using cell by (simp add: np_divide_def)
  have two: "\<forall>b<nb. \<forall>r<dim0 img_dn. \<forall>c<dim1 img_dn. cells rfl_data ! b ! r ! c = Finite 2"
    if h: "\<forall>b<nb. loaded_gain ! b = 1 \<and> loaded_bias ! b = 0 \<and> test_irridance_re ! b = 2 \<and>
             (\<forall>r<dim0 img_dn. \<forall>c<dim1 img_dn. cells img_dn ! r ! c ! b = 4)"
  proof (intro allI impI)
    fix b r c assume b: "b < nb" and rr: "r < dim0 img_dn" and c: "c < dim1 img_dn"
    from cell b rr c have "cells rfl_data ! b ! r ! c =
        np_divide (cells img_dn ! r ! c ! b)
          (loaded_gain ! b * test_irridance_re ! b + loaded_bias ! b)"
      by blast
    also from h b rr c have "\<dots> = np_divide 4 (1 * 2 + 0)" by simp
    also have "\<dots> = Finite (2::'a)" by (simp add: np_divide_def)
    finally show "cells rfl_data ! b ! r ! c = Finite 2" .
  qed
  from r cell nz z two show ?thesis by blast
qed

theorem reflectance_elementwise_witness:
  "array3_ok \<lparr>dim0 = 2, dim1 = 2, dim2 = 3,
              cells = [[[4, 4, 0], [4, 4, 4]], [[4, 4, 4], [4, 4, 4 :: rat]]]\<rparr> \<and>
   reflectance ''vnir_new''
     \<lparr>dim0 = 2, dim1 = 2, dim2 = 3,
      cells = [[[4, 4, 0], [4, 4, 4]], [[4, 4, 4], [4, 4, 4 :: rat]]]\<rparr>
     [2, 2, 0] [1, 1, 1] [0, 0, 0]
   = Inr \<lparr>dim0 = 3, dim1 = 2, dim2 = 2,
          cells = [[[Finite 2, Finite 2], [Finite 2, Finite 2]],
                   [[Finite 2, Finite 2], [Finite 2, Finite 2]],
                   [[NaN, Infinite], [Infinite, Infinite]]]\<rparr>"
  using reflectance_elementwise [of
      "\<lparr>dim0 = 2, dim1 = 2, dim2 = 3,
        cells = [[[4, 4, 0], [4, 4, 4]], [[4, 4, 4], [4, 4, 4 :: rat]]]\<rparr>"
      3 "''vnir_new''" "[2, 2, 0]" "[1, 1, 1]" "[0, 0, 0]"]
  by (simp add: array3_ok_def reflectance_def divide_and_roll_def irrad2dn_def bcast2_def
      divide_bands_def np_divide_def rollaxis_2_0_def upt_rec)

section \<open>Rows read from a logger file\<close>

text \<open>
  C5. With the camera type \<open>swir_new\<close> the loop reads the spectrum of record 0 for
  every record: two records with the spectra \<open>[1]\<close> and \<open>[2]\<close> give the rows \<open>[1]\<close>
  and \<open>[1]\<close>. The times are those of each record.
\<close>

theorem irradiance_time_extractor_swir_new_record0:
  "irradiance_time_extractor ''swir_new''
     (Some [\<lparr>j_timestamp = Some ''2019.03.01-12:38:49'',
             j_spectrometers = Some [''NIRQuest-512'' \<mapsto> Some [1::int]], j_spectrometer = None\<rparr>,
            \<lparr>j_timestamp = Some ''2019.03.01-12:38:54'',
             j_spectrometers = Some [''NIRQuest-512'' \<mapsto> Some [2]], j_spectrometer = None\<rparr>])
   = Inr ([123849, 123854], \<lparr>ncols = 1, rows = [[1], [1]]\<rparr>)"
  by (simp add: irradiance_time_extractor_def read_num_bands_def spectrometers_spectrum_def
      entry_spectrum_def read_time_def read_spectrum_def assign_row_def
      replace_char_def remove_char_def py_int_def strip_def is_space_def digit_val_def)

text \<open>
  The same two records under the instrument of the other camera types give one row per
  record.
\<close>

lemma irradiance_time_extractor_vnir_new_each_record:
  "irradiance_time_extractor ''vnir_new''
     (Some [\<lparr>j_timestamp = Some ''2019.03.01-12:38:49'',
             j_spectrometers = Some [''FLAME-T'' \<mapsto> Some [1::int]], j_spectrometer = None\<rparr>,
            \<lparr>j_timestamp = Some ''2019.03.01-12:38:54'',
             j_spectrometers = Some [''FLAME-T'' \<mapsto> Some [2]], j_spectrometer = None\<rparr>])
   = Inr ([123849, 123854], \<lparr>ncols = 1, rows = [[1], [2]]\<rparr>)"
  by (simp add: irradiance_time_extractor_def read_num_bands_def spectrometers_spectrum_def
      entry_spectrum_def read_time_def read_spectrum_def assign_row_def
      replace_char_def remove_char_def py_int_def strip_def is_space_def digit_val_def)

section \<open>The window of the mean spectrum\<close>

lemma argmin_scan_keep: "\<forall>x\<in>set xs. bv \<le> x \<Longrightarrow> argmin_scan b bv k xs = b"
  by (induction xs arbitrary: k) auto

lemma extract_loop_replicate:
  assumes "read_time r = Inr t" and "read_spectrum camera_type r0 r = Inr sp"
    and "assign_row num_bands sp = Inr row"
  shows "extract_loop camera_type num_bands r0 (replicate k r @ rest) =
           (case extract_loop camera_type num_bands r0 rest of
              Inl e \<Rightarrow> Inl e
            | Inr (tms, spectra) \<Rightarrow> Inr (replicate k t @ tms, replicate k row @ spectra))"
  using assms by (induction k) (auto split: sum.splits)

lemma map_upt_const: "(\<And>j. j < n \<Longrightarrow> f j = c) \<Longrightarrow> map f [0..<n] = replicate n c"
  by (simp add: list_eq_iff_nth_eq)

lemma np_mean_axis0_two_blocks:
  fixes u v :: "'a::{semiring_1,inverse}"
  assumes "0 < p"
  shows "np_mean_axis0 n (replicate p (replicate n u) @ replicate q (replicate n v)) =
           Inr (replicate n ((of_nat p * u + of_nat q * v) / of_nat (p + q)))"
proof -
  have "map (\<lambda>j. sum_list (map (\<lambda>r. r ! j)
                     (replicate p (replicate n u) @ replicate q (replicate n v))) /
                  of_nat (length (replicate p (replicate n u) @ replicate q (replicate n v))))
            [0..<n]
        = replicate n ((of_nat p * u + of_nat q * v) / of_nat (p + q))"
    by (rule map_upt_const) (simp add: sum_list_replicate)
  with assms show ?thesis by (simp add: np_mean_axis0_def)
qed

text \<open>
  C3. For \<open>VNIR\<close> on \<open>2018-01-01\<close> the scanning time of the profile is 540, so the
  window of the claim has 108 records. The local variable \<open>image_scanning_time\<close> of
  \<open>apply_calibration\<close> is bound to the third component of the tuple, 1024: the logger
  files are read into an array of 1024 columns, the record count is 204, and the slice
  ends before index 203. The folder holds one logger file of 300 records of 1024 bands,
  the first at the image time: the first 108 records have the spectrum of ones and the
  other 192 the spectrum of zeros. Reading the folder and averaging as
  \<open>apply_calibration\<close> does gives 108/203 in every band, and not 1.
\<close>

theorem match_and_mean_vnir_old_window:
  "get_camera_info ''VNIR'' ''2018-01-01'' = (''vnir_old'', Some 955, Some 1024, Some 540) \<and>
   (case get_camera_info ''VNIR'' ''2018-01-01'' of
      (camera_type, num_irradiance_bands, image_scanning_time, num_spectral_bands) \<Rightarrow>
        (case read_envlogs camera_type image_scanning_time
                [(''2018-01-01_12-00-00_environmentlogger.json'',
                  Some (\<lparr>j_timestamp = Some ''2018.01.01-12:00:00'',
                          j_spectrometers = Some [''FLAME-T'' \<mapsto> Some (replicate 1024 1)],
                          j_spectrometer = None\<rparr> #
                        replicate 107
                          \<lparr>j_timestamp = Some ''2018.01.01-13:00:00'',
                           j_spectrometers = Some [''FLAME-T'' \<mapsto> Some (replicate 1024 1)],
                           j_spectrometer = None\<rparr> @
                        replicate 192
                          \<lparr>j_timestamp = Some ''2018.01.01-13:00:00'',
                           j_spectrometers = Some [''FLAME-T'' \<mapsto> Some (replicate 1024 0)],
                           j_spectrometer = None\<rparr>))] of
           Inl e \<Rightarrow> Inl e
         | Inr (envlog_tot_time, envlog_spectra) \<Rightarrow>
             match_and_mean image_scanning_time ''2018-01-01T12:00:00''
               envlog_tot_time envlog_spectra))
   = Inr (replicate 1024 (108 / 203 :: rat))"
proof -
  define rA :: "rat reading" where
    "rA = \<lparr>j_timestamp = Some ''2018.01.01-12:00:00'',
           j_spectrometers = Some [''FLAME-T'' \<mapsto> Some (replicate 1024 1)],
           j_spectrometer = None\<rparr>"
  define rB :: "rat reading" where
    "rB = \<lparr>j_timestamp = Some ''2018.01.01-13:00:00'',
           j_spectrometers = Some [''FLAME-T'' \<mapsto> Some (replicate 1024 1)],
           j_spectrometer = None\<rparr>"
  define rC :: "rat reading" where
    "rC = \<lparr>j_timestamp = Some ''2018.01.01-13:00:00'',
           j_spectrometers = Some [''FLAME-T'' \<mapsto> Some (replicate 1024 0)],
           j_spectrometer = None\<rparr>"
  define ones :: "rat list" where "ones = replicate 1024 1"
  define zeros :: "rat list" where "zeros = replicate 1024 0"
  have c: "get_camera_info ''VNIR'' ''2018-01-01'' = (''vnir_old'', Some 955, Some 1024, Some 540)"
    by (simp add: get_camera_info_def)
  have tA: "read_time rA = Inr 120000"
    by (simp add: rA_def read_time_def replace_char_def remove_char_def py_int_def strip_def
        is_space_def digit_val_def)
  have tB: "read_time rB = Inr 130000"
    by (simp add: rB_def read_time_def replace_char_def remove_char_def py_int_def strip_def
        is_space_def digit_val_def)
  have tC: "read_time rC = Inr 130000"
    by (simp add: rC_def read_time_def replace_char_def remove_char_def py_int_def strip_def
        is_space_def digit_val_def)
  have sA: "read_spectrum ''vnir_old'' rA rA = Inr ones"
    by (simp add: rA_def ones_def read_spectrum_def spectrometers_spectrum_def entry_spectrum_def)
  have sB: "read_spectrum ''vnir_old'' rA rB = Inr ones"
    by (simp add: rB_def ones_def read_spectrum_def spectrometers_spectrum_def entry_spectrum_def)
  have sC: "read_spectrum ''vnir_old'' rA rC = Inr zeros"
    by (simp add: rC_def zeros_def read_spectrum_def spectrometers_spectrum_def entry_spectrum_def)
  have a1: "assign_row 1024 ones = Inr ones" by (simp add: assign_row_def ones_def)
  have a0: "assign_row 1024 zeros = Inr zeros" by (simp add: assign_row_def zeros_def)
  have nbands: "read_num_bands ''vnir_old'' rA = Inr 1024"
    by (simp add: rA_def read_num_bands_def spectrometers_spectrum_def entry_spectrum_def)
  have lC: "extract_loop ''vnir_old'' 1024 rA (replicate 192 rC) =
              Inr (replicate 192 130000, replicate 192 zeros)"
    using extract_loop_replicate [OF tC sC a0, of 192 "[]"] by simp
  have lB: "extract_loop ''vnir_old'' 1024 rA (replicate 107 rB @ replicate 192 rC) =
              Inr (replicate 107 130000 @ replicate 192 130000,
                   replicate 107 ones @ replicate 192 zeros)"
    using extract_loop_replicate [OF tB sB a1, of 107 "replicate 192 rC"] by (simp add: lC)
  have lA: "extract_loop ''vnir_old'' 1024 rA (rA # replicate 107 rB @ replicate 192 rC) =
              Inr (120000 # replicate 107 130000 @ replicate 192 130000,
                   ones # replicate 107 ones @ replicate 192 zeros)"
    by (simp add: tA sA a1 lB)
  have ex: "irradiance_time_extractor ''vnir_old''
              (Some (rA # replicate 107 rB @ replicate 192 rC)) =
            Inr (120000 # replicate 107 130000 @ replicate 192 130000,
                 \<lparr>ncols = 1024, rows = ones # replicate 107 ones @ replicate 192 zeros\<rparr>)"
    by (simp add: irradiance_time_extractor_def nbands lA del: extract_loop.simps)
  have rd: "read_envlogs ''vnir_old'' (Some 1024)
              [(''2018-01-01_12-00-00_environmentlogger.json'',
                Some (rA # replicate 107 rB @ replicate 192 rC))] =
            Inr (120000 # replicate 107 130000 @ replicate 192 130000,
                 \<lparr>ncols = 1024, rows = ones # replicate 107 ones @ replicate 192 zeros\<rparr>)"
    by (simp add: read_envlogs_def endswith_def ex vstack_def)
  have t: "py_int (remove_char (CHR '':'') (get_local_time ''2018-01-01T12:00:00'')) = Inr 120000"
    by (simp add: get_local_time_def remove_char_def py_int_def strip_def is_space_def digit_val_def)
  have st: "abs_diff_time 120000 (120000 # replicate 107 130000 @ replicate 192 130000) =
              Inr (0 # replicate 107 10000 @ replicate 192 10000)"
    by (rule trans [OF abs_diff_time_exact]) simp_all
  have i: "ind_closet_time 120000 (120000 # replicate 107 130000 @ replicate 192 130000) = Inr 0"
    by (simp add: ind_closet_time_def st np_argmin_def argmin_scan_keep
        del: abs_diff_time.simps)
  have n: "num_irridiance_record 1024 = 204"
    by (simp add: num_irridiance_record_def)
  have r108: "ones # replicate 107 ones = replicate 108 ones"
    using replicate_Suc [of 107 ones] by simp
  have w: "window_rows 0 204 (ones # replicate 107 ones @ replicate 192 zeros)
             = replicate 108 ones @ replicate 95 zeros"
    unfolding r108 [symmetric] by (simp add: window_rows_def py_slice_def slice_bound_def)
  have m: "np_mean_axis0 1024 (replicate 108 ones @ replicate 95 zeros) =
             Inr (replicate 1024 (108 / 203))"
    unfolding ones_def zeros_def
    using np_mean_axis0_two_blocks [of 108 1024 "1::rat" 95 0] by simp
  have mm: "match_and_mean (Some 1024) ''2018-01-01T12:00:00''
              (120000 # replicate 107 130000 @ replicate 192 130000)
              \<lparr>ncols = 1024, rows = ones # replicate 107 ones @ replicate 192 zeros\<rparr> =
            Inr (replicate 1024 (108 / 203))"
    by (simp add: match_and_mean_def t mean_spectrum_def i n w m)
  show ?thesis
    unfolding c using rd mm unfolding rA_def rB_def rC_def ones_def zeros_def by simp
qed

section \<open>Properties of the array file written\<close>




lemma copy_variable_other:
  "name \<noteq> ''rfl_img'' \<Longrightarrow> \<exists>v'. copy_variable nan dims rfl_data camera_type name v = Inr v'"
  by (simp add: copy_variable_def Let_def)

lemma copy_variable_rfl_img:
  "put_rfl_img nan dims (var_dimensions v) rfl_data camera_type = Inr a \<Longrightarrow>
   \<exists>v'. copy_variable nan dims rfl_data camera_type ''rfl_img'' v = Inr v' \<and> var_data v' = Cube a"
  by (simp add: copy_variable_def Let_def)

lemma copy_variables_Inr:
  "copy_variables nan dims rfl_data camera_type vars = Inr vs \<Longrightarrow>
   list_all2 (\<lambda>nv nv'. fst nv' = fst nv \<and>
                copy_variable nan dims rfl_data camera_type (fst nv) (snd nv) = Inr (snd nv'))
     (filter (\<lambda>nv. fst nv \<noteq> ''Google_Map_View'') vars) vs"
proof (induction vars arbitrary: vs)
  case Nil
  then show ?case by simp
next
  case (Cons nv vars)
  obtain name variable where nv: "nv = (name, variable)" by (cases nv)
  show ?case
  proof (cases "name = ''Google_Map_View''")
    case True
    with Cons show ?thesis by (simp add: nv)
  next
    case False
    with Cons.prems obtain v' vs' where
      v': "copy_variable nan dims rfl_data camera_type name variable = Inr v'"
      and vs': "copy_variables nan dims rfl_data camera_type vars = Inr vs'"
      and vs: "vs = (name, v') # vs'"
      by (auto simp: nv split: sum.splits)
    from Cons.IH [OF vs'] v' False show ?thesis by (simp add: nv vs)
  qed
qed

lemma copy_variables_succeeds:
  "(\<And>name v. (name, v) \<in> set vars \<Longrightarrow> name \<noteq> ''Google_Map_View'' \<Longrightarrow>
       \<exists>v'. copy_variable nan dims rfl_data camera_type name v = Inr v') \<Longrightarrow>
   \<exists>vs. copy_variables nan dims rfl_data camera_type vars = Inr vs"
proof (induction vars)
  case Nil
  show ?case by simp
next
  case (Cons nv vars)
  obtain name variable where nv: "nv = (name, variable)" by (cases nv)
  from Cons.IH Cons.prems obtain vs where
    vs: "copy_variables nan dims rfl_data camera_type vars = Inr vs"
    by (metis list.set_intros(2))
  show ?case
  proof (cases "name = ''Google_Map_View''")
    case True
    with vs show ?thesis by (simp add: nv)
  next
    case False
    with Cons.prems [of name variable] obtain v' where
      "copy_variable nan dims rfl_data camera_type name variable = Inr v'"
      by (auto simp: nv)
    with vs False show ?thesis by (simp add: nv)
  qed
qed

lemma list_all2_names:
  "list_all2 (\<lambda>nv nv'. fst nv' = fst nv \<and> Q nv nv') xs ys \<Longrightarrow> map fst ys = map fst xs"
  by (induction xs ys rule: list_all2_induct) auto

lemma list_all2_member:
  "list_all2 R xs ys \<Longrightarrow> x \<in> set xs \<Longrightarrow> \<exists>y\<in>set ys. R x y"
  by (induction xs ys rule: list_all2_induct) auto



lemma created_dims_extent:
  assumes "distinct (map fst ds)" and "(n, d) \<in> set ds" and "\<not> dim_isunlimited d"
  shows "dim_extent (map (\<lambda>(name, dimension).
            createDimension name
              (if \<not> dim_isunlimited dimension then Some (dim_len dimension) else None)) ds) n
         = Inr (dim_len d)"
proof -
  let ?f = "\<lambda>dimension. \<lparr>dim_len = (if dim_isunlimited dimension then 0 else dim_len dimension),
                         dim_isunlimited = dim_isunlimited dimension\<rparr>"
  have eq: "map (\<lambda>(name, dimension).
            createDimension name
              (if \<not> dim_isunlimited dimension then Some (dim_len dimension) else None)) ds
        = map (\<lambda>(k, v). (k, ?f v)) ds"
    by (rule map_cong) (auto simp: createDimension_def split: if_splits)
  have "map_of ds n = Some d" using assms(1,2) by simp
  then have "map_of (map (\<lambda>(k, v). (k, ?f v)) ds) n = Some (?f d)"
    by (simp add: map_of_map)
  then show ?thesis using assms(3) unfolding eq by (simp add: dim_extent_def)
qed


lemma grow_dims_names: "map fst (grow_dims src_dims names dims) = map fst dims"
  by (induction dims) (auto simp: grow_dims_def)








lemma put_subset_cells:
  assumes ok: "array3_ok rfl_data"
    and d: "dim0 rfl_data = min cutoff e0" "dim1 rfl_data = e1" "dim2 rfl_data = e2"
  shows "\<exists>a. put_subset cutoff nan (e0, e1, e2) rfl_data = Inr a \<and> array3_ok a \<and>
           dim0 a = e0 \<and> dim1 a = e1 \<and> dim2 a = e2 \<and>
           (\<forall>b<min cutoff e0. cells a ! b = cells rfl_data ! b) \<and>
           (\<forall>b. cutoff \<le> b \<and> b < e0 \<longrightarrow> cells a ! b = replicate e1 (replicate e2 nan))"
proof -
  let ?a = "\<lparr>dim0 = e0, dim1 = e1, dim2 = e2,
             cells = cells rfl_data @ replicate (e0 - cutoff) (replicate e1 (replicate e2 nan))\<rparr>"
  have L: "length (cells rfl_data) = min cutoff e0"
    using ok d by (simp add: array3_ok_def)
  have p: "put_subset cutoff nan (e0, e1, e2) rfl_data = Inr ?a"
    using d by (simp add: put_subset_def)
  have oka: "array3_ok ?a"
    using ok d by (auto simp: array3_ok_def list_all_iff)
  have lo: "cells ?a ! b = cells rfl_data ! b" if "b < min cutoff e0" for b
    using that L by (simp add: nth_append)
  have hi: "cells ?a ! b = replicate e1 (replicate e2 nan)" if "cutoff \<le> b" "b < e0" for b
    using that L by (simp add: nth_append min_def)
  from p oka lo hi show ?thesis by auto
qed

lemma put_all_cells:
  assumes ok: "array3_ok rfl_data"
    and d: "dim0 rfl_data = e0" "dim1 rfl_data = e1" "dim2 rfl_data = e2"
  shows "put_all (e0, e1, e2) rfl_data = Inr rfl_data"
  using d by (simp add: put_all_def)


text \<open>
  C2. Let the template have a variable \<open>rfl_img\<close> over three dimensions of fixed
  lengths \<open>e0\<close>, \<open>e1\<close>, \<open>e2\<close>, and let the computed array be well formed and fit the
  region written: \<open>min 679 e0\<close> slots for \<open>vnir_old\<close>, \<open>min 662 e0\<close> for \<open>vnir_middle\<close>,
  \<open>e0\<close> otherwise, each of \<open>e1\<close> by \<open>e2\<close> cells. Then \<open>update_netcdf\<close> returns a file
  with exactly one variable \<open>rfl_img\<close>, of shape \<open>(e0, e1, e2)\<close>. For \<open>vnir_old\<close> its
  slots below 679 are those of the computed array and every cell of every slot from 679
  on is \<open>nan\<close>; for \<open>vnir_middle\<close> the same holds with 662; for every other camera type
  its data are the computed array.
\<close>

theorem update_netcdf_rfl_img:
  assumes names: "distinct (map fst (ds_variables src))"
    and dnames: "distinct (map fst (ds_dimensions src))"
    and v: "(''rfl_img'', v) \<in> set (ds_variables src)"
    and vd: "var_dimensions v = [n0, n1, n2]"
    and d0: "(n0, \<lparr>dim_len = e0, dim_isunlimited = False\<rparr>) \<in> set (ds_dimensions src)"
    and d1: "(n1, \<lparr>dim_len = e1, dim_isunlimited = False\<rparr>) \<in> set (ds_dimensions src)"
    and d2: "(n2, \<lparr>dim_len = e2, dim_isunlimited = False\<rparr>) \<in> set (ds_dimensions src)"
    and ok: "array3_ok rfl_data"
    and s0: "dim0 rfl_data =
               (if camera_type = ''vnir_old'' then min 679 e0
                else if camera_type = ''vnir_middle'' then min 662 e0 else e0)"
    and s1: "dim1 rfl_data = e1" and s2: "dim2 rfl_data = e2"
  shows "\<exists>dst v' a.
           update_netcdf nan src rfl_data camera_type = Inr dst \<and>
           (''rfl_img'', v') \<in> set (ds_variables dst) \<and>
           (\<forall>u. (''rfl_img'', u) \<in> set (ds_variables dst) \<longrightarrow> u = v') \<and>
           var_data v' = Cube a \<and> array3_ok a \<and>
           dim0 a = e0 \<and> dim1 a = e1 \<and> dim2 a = e2 \<and>
           (camera_type = ''vnir_old'' \<longrightarrow>
              (\<forall>b<min 679 e0. cells a ! b = cells rfl_data ! b) \<and>
              (\<forall>b. 679 \<le> b \<and> b < e0 \<longrightarrow> (\<forall>r<e1. \<forall>c<e2. cells a ! b ! r ! c = nan))) \<and>
           (camera_type = ''vnir_middle'' \<longrightarrow>
              (\<forall>b<min 662 e0. cells a ! b = cells rfl_data ! b) \<and>
              (\<forall>b. 662 \<le> b \<and> b < e0 \<longrightarrow> (\<forall>r<e1. \<forall>c<e2. cells a ! b ! r ! c = nan))) \<and>
           (camera_type \<noteq> ''vnir_old'' \<and> camera_type \<noteq> ''vnir_middle'' \<longrightarrow> a = rfl_data)"
proof -
  let ?dims = "map (\<lambda>(name, dimension).
                      createDimension name
                        (if \<not> dim_isunlimited dimension then Some (dim_len dimension) else None))
                   (ds_dimensions src)"
  have sh: "var_shape3 ?dims (var_dimensions v) = Inr (e0, e1, e2)"
    using created_dims_extent [OF dnames d0] created_dims_extent [OF dnames d1]
      created_dims_extent [OF dnames d2]
    by (simp add: var_shape3_def vd)
  \<comment> \<open>the array written, by camera type\<close>
  have put: "\<exists>a. put_rfl_img nan ?dims (var_dimensions v) rfl_data camera_type = Inr a \<and>
           array3_ok a \<and> dim0 a = e0 \<and> dim1 a = e1 \<and> dim2 a = e2 \<and>
           (camera_type = ''vnir_old'' \<longrightarrow>
              (\<forall>b<min 679 e0. cells a ! b = cells rfl_data ! b) \<and>
              (\<forall>b. 679 \<le> b \<and> b < e0 \<longrightarrow> (\<forall>r<e1. \<forall>c<e2. cells a ! b ! r ! c = nan))) \<and>
           (camera_type = ''vnir_middle'' \<longrightarrow>
              (\<forall>b<min 662 e0. cells a ! b = cells rfl_data ! b) \<and>
              (\<forall>b. 662 \<le> b \<and> b < e0 \<longrightarrow> (\<forall>r<e1. \<forall>c<e2. cells a ! b ! r ! c = nan))) \<and>
           (camera_type \<noteq> ''vnir_old'' \<and> camera_type \<noteq> ''vnir_middle'' \<longrightarrow> a = rfl_data)"
  proof (cases "camera_type = ''vnir_old''")
    case True
    with s0 have "dim0 rfl_data = min 679 e0" by simp
    from put_subset_cells [OF ok this s1 s2, of nan] obtain a where a:
      "put_subset 679 nan (e0, e1, e2) rfl_data = Inr a" "array3_ok a"
      "dim0 a = e0" "dim1 a = e1" "dim2 a = e2"
      "\<forall>b<min 679 e0. cells a ! b = cells rfl_data ! b"
      "\<forall>b. 679 \<le> b \<and> b < e0 \<longrightarrow> cells a ! b = replicate e1 (replicate e2 nan)"
      by blast
    have "\<forall>b. 679 \<le> b \<and> b < e0 \<longrightarrow> (\<forall>r<e1. \<forall>c<e2. cells a ! b ! r ! c = nan)"
      using a(7) by simp
    with a True sh show ?thesis by (simp add: put_rfl_img_def)
  next
    case False
    note old = False
    show ?thesis
    proof (cases "camera_type = ''vnir_middle''")
      case True
      with s0 have "dim0 rfl_data = min 662 e0" by simp
      from put_subset_cells [OF ok this s1 s2, of nan] obtain a where a:
        "put_subset 662 nan (e0, e1, e2) rfl_data = Inr a" "array3_ok a"
        "dim0 a = e0" "dim1 a = e1" "dim2 a = e2"
        "\<forall>b<min 662 e0. cells a ! b = cells rfl_data ! b"
        "\<forall>b. 662 \<le> b \<and> b < e0 \<longrightarrow> cells a ! b = replicate e1 (replicate e2 nan)"
        by blast
      have "\<forall>b. 662 \<le> b \<and> b < e0 \<longrightarrow> (\<forall>r<e1. \<forall>c<e2. cells a ! b ! r ! c = nan)"
        using a(7) by simp
      with a True sh show ?thesis by (simp add: put_rfl_img_def)
    next
      case False
      with old s0 have "dim0 rfl_data = e0" by simp
      from put_all_cells [OF ok this s1 s2] ok this s1 s2 old False sh
      show ?thesis by (simp add: put_rfl_img_def)
    qed
  qed
  then obtain a where a:
    "put_rfl_img nan ?dims (var_dimensions v) rfl_data camera_type = Inr a"
    and rest: "array3_ok a \<and> dim0 a = e0 \<and> dim1 a = e1 \<and> dim2 a = e2 \<and>
           (camera_type = ''vnir_old'' \<longrightarrow>
              (\<forall>b<min 679 e0. cells a ! b = cells rfl_data ! b) \<and>
              (\<forall>b. 679 \<le> b \<and> b < e0 \<longrightarrow> (\<forall>r<e1. \<forall>c<e2. cells a ! b ! r ! c = nan))) \<and>
           (camera_type = ''vnir_middle'' \<longrightarrow>
              (\<forall>b<min 662 e0. cells a ! b = cells rfl_data ! b) \<and>
              (\<forall>b. 662 \<le> b \<and> b < e0 \<longrightarrow> (\<forall>r<e1. \<forall>c<e2. cells a ! b ! r ! c = nan))) \<and>
           (camera_type \<noteq> ''vnir_old'' \<and> camera_type \<noteq> ''vnir_middle'' \<longrightarrow> a = rfl_data)"
    by blast
  \<comment> \<open>every variable is copied, so the loop returns\<close>
  have each: "\<exists>v'. copy_variable nan ?dims rfl_data camera_type name u = Inr v'"
    if "(name, u) \<in> set (ds_variables src)" for name u
  proof (cases "name = ''rfl_img''")
    case True
    with that v names have "u = v" by (meson eq_key_imp_eq_value)
    with copy_variable_rfl_img [OF a] True show ?thesis by blast
  next
    case False
    then show ?thesis by (rule copy_variable_other)
  qed
  from copy_variables_succeeds [of "ds_variables src" nan ?dims rfl_data camera_type] each
  obtain vs where vs: "copy_variables nan ?dims rfl_data camera_type (ds_variables src) = Inr vs"
    by blast
  have has: "''rfl_img'' \<in> fst ` set (ds_variables src)" using v by force
  let ?dst = "\<lparr>ds_atts = setncatts Map.empty (ds_atts src),
               ds_dimensions = grown_dims (ds_dimensions src) (ds_variables src) ?dims,
               ds_variables = vs\<rparr>"
  have upd: "update_netcdf nan src rfl_data camera_type = Inr ?dst"
    using vs has by (simp add: update_netcdf_def)
  note all2 = copy_variables_Inr [OF vs]
  have "(''rfl_img'', v) \<in> set (filter (\<lambda>nv. fst nv \<noteq> ''Google_Map_View'') (ds_variables src))"
    using v by simp
  from list_all2_member [OF all2 this] obtain nv' where nv':
    "nv' \<in> set vs" "fst nv' = ''rfl_img''"
    "copy_variable nan ?dims rfl_data camera_type ''rfl_img'' v = Inr (snd nv')"
    by auto
  from copy_variable_rfl_img [OF a] nv'(3) have data: "var_data (snd nv') = Cube a" by auto
  have mem: "(''rfl_img'', snd nv') \<in> set vs" using nv'(1,2) by (metis prod.collapse)
  have "map fst vs = map fst (filter (\<lambda>nv. fst nv \<noteq> ''Google_Map_View'') (ds_variables src))"
    using list_all2_names [OF all2] .
  then have "map fst vs = filter (\<lambda>name. name \<noteq> ''Google_Map_View'') (map fst (ds_variables src))"
    by (simp add: filter_map comp_def)
  with names have dvs: "distinct (map fst vs)" by simp
  have uniq: "u = snd nv'" if "(''rfl_img'', u) \<in> set vs" for u
    using that mem dvs by (meson eq_key_imp_eq_value)
  have m2: "(''rfl_img'', snd nv') \<in> set (ds_variables ?dst)" using mem by simp
  have u2: "\<forall>u. (''rfl_img'', u) \<in> set (ds_variables ?dst) \<longrightarrow> u = snd nv'"
    using uniq by simp
  show ?thesis
    by (rule exI [of _ ?dst], rule exI [of _ "snd nv'"], rule exI [of _ a])
       (intro conjI upd m2 u2 data rest [THEN conjunct1]
          rest [THEN conjunct2, THEN conjunct1]
          rest [THEN conjunct2, THEN conjunct2, THEN conjunct1]
          rest [THEN conjunct2, THEN conjunct2, THEN conjunct2, THEN conjunct1]
          rest [THEN conjunct2, THEN conjunct2, THEN conjunct2, THEN conjunct2, THEN conjunct1]
          rest [THEN conjunct2, THEN conjunct2, THEN conjunct2, THEN conjunct2, THEN conjunct2,
                THEN conjunct1]
          rest [THEN conjunct2, THEN conjunct2, THEN conjunct2, THEN conjunct2, THEN conjunct2,
                THEN conjunct2])
qed

theorem update_netcdf_rfl_img_witness:
  "distinct (map fst [(''rfl_img'',
        \<lparr>var_datatype = ''f4'', var_dimensions = [''wavelength'', ''y'', ''x''],
         var_atts = Map.empty :: string \<rightharpoonup> nat attval,
         var_data = (Unwritten :: (rat cell, nat) ncdata)\<rparr>)]) \<and>
   array3_ok \<lparr>dim0 = 679, dim1 = 1, dim2 = 1, cells = replicate 679 [[Finite (1::rat)]]\<rparr> \<and>
   (\<exists>dst v' a.
      update_netcdf NaN
        \<lparr>ds_atts = Map.empty,
         ds_dimensions = [(''wavelength'', \<lparr>dim_len = 955, dim_isunlimited = False\<rparr>),
                          (''y'', \<lparr>dim_len = 1, dim_isunlimited = False\<rparr>),
                          (''x'', \<lparr>dim_len = 1, dim_isunlimited = False\<rparr>)],
         ds_variables = [(''rfl_img'',
            \<lparr>var_datatype = ''f4'', var_dimensions = [''wavelength'', ''y'', ''x''],
             var_atts = Map.empty :: string \<rightharpoonup> nat attval,
             var_data = (Unwritten :: (rat cell, nat) ncdata)\<rparr>)]\<rparr>
        \<lparr>dim0 = 679, dim1 = 1, dim2 = 1, cells = replicate 679 [[Finite (1::rat)]]\<rparr>
        ''vnir_old'' = Inr dst \<and>
      (''rfl_img'', v') \<in> set (ds_variables dst) \<and> var_data v' = Cube a \<and>
      dim0 a = 955 \<and>
      cells a ! 678 ! 0 ! 0 = Finite 1 \<and> cells a ! 679 ! 0 ! 0 = NaN \<and>
      cells a ! 954 ! 0 ! 0 = NaN)"
proof -
  define v :: "(nat, rat cell, nat) ncvar" where
    "v = \<lparr>var_datatype = ''f4'', var_dimensions = [''wavelength'', ''y'', ''x''],
          var_atts = Map.empty, var_data = Unwritten\<rparr>"
  define src :: "(nat, rat cell, nat) dataset" where
    "src = \<lparr>ds_atts = Map.empty,
            ds_dimensions = [(''wavelength'', \<lparr>dim_len = 955, dim_isunlimited = False\<rparr>),
                             (''y'', \<lparr>dim_len = 1, dim_isunlimited = False\<rparr>),
                             (''x'', \<lparr>dim_len = 1, dim_isunlimited = False\<rparr>)],
            ds_variables = [(''rfl_img'', v)]\<rparr>"
  define rfl :: "rat cell array3" where
    "rfl = \<lparr>dim0 = 679, dim1 = 1, dim2 = 1, cells = replicate 679 [[Finite 1]]\<rparr>"
  have h1: "distinct (map fst (ds_variables src))" by (simp add: src_def)
  have h2: "distinct (map fst (ds_dimensions src))" by (simp add: src_def)
  have h3: "(''rfl_img'', v) \<in> set (ds_variables src)" by (simp add: src_def)
  have h4: "var_dimensions v = [''wavelength'', ''y'', ''x'']" by (simp add: v_def)
  have h5: "(''wavelength'', \<lparr>dim_len = 955, dim_isunlimited = False\<rparr>) \<in> set (ds_dimensions src)"
    by (simp add: src_def)
  have h6: "(''y'', \<lparr>dim_len = 1, dim_isunlimited = False\<rparr>) \<in> set (ds_dimensions src)"
    by (simp add: src_def)
  have h7: "(''x'', \<lparr>dim_len = 1, dim_isunlimited = False\<rparr>) \<in> set (ds_dimensions src)"
    by (simp add: src_def)
  have h8: "array3_ok rfl" by (simp add: rfl_def array3_ok_iff)
  have h9: "dim0 rfl = (if ''vnir_old'' = ''vnir_old'' then min 679 955
                        else if ''vnir_old'' = ''vnir_middle'' then min 662 955 else 955)"
    by (simp add: rfl_def)
  have h10: "dim1 rfl = 1" and h11: "dim2 rfl = 1" by (simp_all add: rfl_def)
  from update_netcdf_rfl_img [OF h1 h2 h3 h4 h5 h6 h7 h8 h9 h10 h11, of NaN]
  obtain dst v' a where r:
    "update_netcdf NaN src rfl ''vnir_old'' = Inr dst"
    "(''rfl_img'', v') \<in> set (ds_variables dst)"
    "var_data v' = Cube a" "dim0 a = 955"
    "\<forall>b<min 679 955. cells a ! b = cells rfl ! b"
    "\<forall>b. 679 \<le> b \<and> b < 955 \<longrightarrow> (\<forall>r<1. \<forall>c<1. cells a ! b ! r ! c = NaN)"
    by auto
  have c1: "cells a ! 678 ! 0 ! 0 = Finite 1" using r(5) by (simp add: rfl_def)
  have c2: "cells a ! 679 ! 0 ! 0 = NaN" using r(6) by simp
  have c3: "cells a ! 954 ! 0 ! 0 = NaN" using r(6) by simp
  have "\<exists>dst v' a. update_netcdf NaN src rfl ''vnir_old'' = Inr dst \<and>
      (''rfl_img'', v') \<in> set (ds_variables dst) \<and> var_data v' = Cube a \<and>
      dim0 a = 955 \<and>
      cells a ! 678 ! 0 ! 0 = Finite 1 \<and> cells a ! 679 ! 0 ! 0 = NaN \<and>
      cells a ! 954 ! 0 ! 0 = NaN"
    using r(1-4) c1 c2 c3 by blast
  with h1 h8 show ?thesis unfolding src_def v_def rfl_def by simp
qed

section \<open>An empty time sequence\<close>

lemma extract_loop_length:
  "extract_loop camera_type num_bands r0 rs = Inr (tms, spectra) \<Longrightarrow>
   length tms = length rs \<and> length spectra = length rs"
proof (induction rs arbitrary: tms spectra)
  case Nil
  then show ?case by simp
next
  case (Cons r rs)
  from Cons.prems obtain t row tms' spectra' where
    "extract_loop camera_type num_bands r0 rs = Inr (tms', spectra')"
    "tms = t # tms'" "spectra = row # spectra'"
    by (auto split: sum.splits prod.splits)
  with Cons.IH show ?case by simp
qed

lemma irradiance_time_extractor_times:
  assumes "irradiance_time_extractor camera_type env_json = Inr (tms, m)"
  shows "tms \<noteq> []"
  using assms
  by (auto simp: irradiance_time_extractor_def simp del: extract_loop.simps
      split: option.splits list.splits sum.splits prod.splits dest!: extract_loop_length)

lemma read_envlog_loop_no_times:
  "read_envlog_loop camera_type acc files = Inr (tms, m) \<Longrightarrow> tms = [] \<Longrightarrow>
   fst acc = [] \<and> list_all (\<lambda>f. \<not> endswith (fst f) ''environmentlogger.json'') files"
proof (induction files arbitrary: acc)
  case Nil
  then show ?case by auto
next
  case (Cons f files)
  obtain one_file env_json where f: "f = (one_file, env_json)" by (cases f)
  show ?case
  proof (cases "endswith one_file ''environmentlogger.json''")
    case True
    with Cons.prems(1) obtain t sp stacked where
      ex: "irradiance_time_extractor camera_type env_json = Inr (t, sp)"
      and rec: "read_envlog_loop camera_type (fst acc @ t, stacked) files = Inr (tms, m)"
      by (auto simp: f split: sum.splits prod.splits)
    from Cons.IH [OF rec Cons.prems(2)] have "fst acc @ t = []" by simp
    with irradiance_time_extractor_times [OF ex] show ?thesis by simp
  next
    case False
    with Cons.prems(1) have "read_envlog_loop camera_type acc files = Inr (tms, m)"
      by (simp add: f)
    from Cons.IH [OF this Cons.prems(2)] False show ?thesis by (simp add: f)
  qed
qed

lemma read_envlog_loop_no_files:
  "list_all (\<lambda>f. \<not> endswith (fst f) ''environmentlogger.json'') files \<Longrightarrow>
   read_envlog_loop camera_type acc files = Inr acc"
  by (induction files arbitrary: acc) auto

text \<open>
  The time sequence that \<open>apply_calibration\<close> builds is empty exactly when no entry of
  the folder has the name of a logger file: a logger file with no record is an error,
  and every other one adds a time.
\<close>

lemma read_envlogs_empty_iff:
  "(\<exists>m. read_envlogs camera_type (Some c) listing = Inr ([], m)) \<longleftrightarrow>
   0 \<le> c \<and> list_all (\<lambda>f. \<not> endswith (fst f) ''environmentlogger.json'') listing"
proof
  assume "\<exists>m. read_envlogs camera_type (Some c) listing = Inr ([], m)"
  then obtain m where m: "read_envlogs camera_type (Some c) listing = Inr ([], m)" ..
  then have c: "0 \<le> c" by (auto simp: read_envlogs_def split: if_splits)
  with m have "read_envlog_loop camera_type ([], \<lparr>ncols = nat c, rows = []\<rparr>) listing = Inr ([], m)"
    by (simp add: read_envlogs_def)
  from read_envlog_loop_no_times [OF this] c
  show "0 \<le> c \<and> list_all (\<lambda>f. \<not> endswith (fst f) ''environmentlogger.json'') listing"
    by simp
next
  assume "0 \<le> c \<and> list_all (\<lambda>f. \<not> endswith (fst f) ''environmentlogger.json'') listing"
  then show "\<exists>m. read_envlogs camera_type (Some c) listing = Inr ([], m)"
    by (simp add: read_envlogs_def read_envlog_loop_no_files)
qed

lemma calibrate_empty_series:
  fixes w :: "('v, 'a::{semiring_1,inverse}, 'o) world"
  assumes "read_envlogs camera_type image_scanning_time (w_listdir w) = Inr ([], envlog_spectra)"
  shows "(\<exists>e. calibrate w camera_type num_irradiance_bands image_scanning_time timestamp = Inl e) \<and>
         ((\<exists>t. py_int (remove_char (CHR '':'') (get_local_time timestamp)) = Inr t) \<longrightarrow>
          calibrate w camera_type num_irradiance_bands image_scanning_time timestamp =
            Inl (ValueError ''attempt to get argmin of an empty sequence''))"
proof -
  from assms obtain c where c: "image_scanning_time = Some c"
    by (cases image_scanning_time) (auto simp: read_envlogs_def)
  have mm: "match_and_mean image_scanning_time timestamp [] envlog_spectra =
      (case py_int (remove_char (CHR '':'') (get_local_time timestamp)) of
         Inl e \<Rightarrow> Inl e
       | Inr t \<Rightarrow> Inl (ValueError ''attempt to get argmin of an empty sequence''))"
    by (simp add: match_and_mean_def c mean_spectrum_def ind_closet_time_def np_argmin_def split: sum.split)
  have cal: "calibrate w camera_type num_irradiance_bands image_scanning_time timestamp =
      (case py_int (remove_char (CHR '':'') (get_local_time timestamp)) of
         Inl e \<Rightarrow> Inl e
       | Inr t \<Rightarrow> Inl (ValueError ''attempt to get argmin of an empty sequence''))"
    by (simp add: calibrate_def assms mm split: sum.split)
  show ?thesis unfolding cal by (auto split: sum.split)
qed

lemma apply_calibration_empty:
  fixes w :: "('v, 'a::{semiring_1,inverse}, 'o) world"
  assumes info: "get_camera_info sensor data_date =
             (camera_type, num_irradiance_bands, image_scanning_time, num_spectral_bands)"
    and cal: "camera_type \<noteq> ''swir_old_middle''"
    and empty: "read_envlogs camera_type image_scanning_time (w_listdir w) = Inr ([], envlog_spectra)"
  shows "\<exists>e. apply_calibration w raw_filename sensor data_date timestamp = Inl e \<and>
             (w_exists w (raw_filename @ ''.hdr'') \<and>
              (\<exists>t. py_int (remove_char (CHR '':'') (get_local_time timestamp)) = Inr t) \<longrightarrow>
              e = ValueError ''attempt to get argmin of an empty sequence'')"
proof (cases "w_exists w (raw_filename @ ''.hdr'')")
  case False
  then show ?thesis by (simp add: apply_calibration_def info)
next
  case True
  from calibrate_empty_series [OF empty, of num_irradiance_bands timestamp]
  obtain e where e:
    "calibrate w camera_type num_irradiance_bands image_scanning_time timestamp = Inl e"
    "(\<exists>t. py_int (remove_char (CHR '':'') (get_local_time timestamp)) = Inr t) \<longrightarrow>
     e = ValueError ''attempt to get argmin of an empty sequence''"
    by auto
  have "apply_calibration w raw_filename sensor data_date timestamp = Inl e"
    by (simp add: apply_calibration_def info True cal e(1))
  with e(2) show ?thesis by simp
qed

text \<open>
  C6. Let the camera type of the sensor and date be one that is calibrated, and let the
  time sequence read from the logger folder be empty. Then \<open>apply_calibration\<close> raises
  for every raw file name and writes no file; when the header file exists and the image
  time can be read from the time stamp, the exception is the \<open>ValueError\<close> of the search
  for the nearest record in an empty sequence, so no mean spectrum is computed.
  \<open>perform_process\<close>, which derives the date as below, returns a dictionary with a code
  other than 0 and an error text, and no file; when the raw file, the folder and the
  memory check let it reach the calibration the code is -1004.
\<close>

theorem apply_calibration_empty_series:
  fixes w :: "('v, 'a::{semiring_1,inverse}, 'o) world"
  assumes "get_camera_info sensor data_date =
             (camera_type, num_irradiance_bands, image_scanning_time, num_spectral_bands)"
    and "camera_type \<noteq> ''swir_old_middle''"
    and "read_envlogs camera_type image_scanning_time (w_listdir w) = Inr ([], envlog_spectra)"
    and "data_date =
           replace_char (CHR ''_'') (CHR ''-'')
             (replace_char (CHR ''/'') (CHR ''-'')
                (if date_override \<noteq> None \<and> date_override \<noteq> Some [] then the date_override
                 else take 10 timestamp))"
  shows "(\<forall>raw_filename.
            \<exists>e. apply_calibration w raw_filename sensor data_date timestamp = Inl e \<and>
                (w_exists w (raw_filename @ ''.hdr'') \<and>
                 (\<exists>t. py_int (remove_char (CHR '':'') (get_local_time timestamp)) = Inr t) \<longrightarrow>
                 e = ValueError ''attempt to get argmin of an empty sequence'')) \<and>
         (\<exists>r. perform_process w list_files environment_logger skip_memory_check error_msg
                 sensor date_override timestamp = (r, None) \<and>
              res_code r \<noteq> 0 \<and> res_error r \<noteq> None \<and>
              (get_needed_files list_files \<noteq> None \<and> get_needed_files list_files \<noteq> Some [] \<and>
               w_isdir w environment_logger \<and>
               (skip_memory_check \<or> error_msg = None \<or> error_msg = Some []) \<longrightarrow>
               res_code r = - 1004))"
proof -
  note ac = apply_calibration_empty [OF assms(1) assms(2) assms(3)]
  have a: "\<forall>raw_filename.
            \<exists>e. apply_calibration w raw_filename sensor data_date timestamp = Inl e \<and>
                (w_exists w (raw_filename @ ''.hdr'') \<and>
                 (\<exists>t. py_int (remove_char (CHR '':'') (get_local_time timestamp)) = Inr t) \<longrightarrow>
                 e = ValueError ''attempt to get argmin of an empty sequence'')"
    using ac by blast
  let ?pp = "perform_process w list_files environment_logger skip_memory_check error_msg
               sensor date_override timestamp"
  let ?early = "get_needed_files list_files = None \<or> get_needed_files list_files = Some [] \<or>
                \<not> w_isdir w environment_logger \<or>
                (\<not> skip_memory_check \<and> error_msg \<noteq> None \<and> error_msg \<noteq> Some [])"
  have b: "\<exists>r. ?pp = (r, None) \<and> res_code r \<noteq> 0 \<and> res_error r \<noteq> None \<and>
              (\<not> ?early \<longrightarrow> res_code r = - 1004)"
  proof (cases ?early)
    case True
    then show ?thesis by (auto simp: perform_process_def Let_def)
  next
    case False
    from ac [of "the (get_needed_files list_files)"] obtain e where
      "apply_calibration w (the (get_needed_files list_files)) sensor data_date timestamp = Inl e"
      by blast
    with False show ?thesis
      unfolding assms(4) by (auto simp: perform_process_def Let_def)
  qed
  from a b show ?thesis by blast
qed

theorem apply_calibration_empty_series_witness:
  "get_camera_info ''VNIR'' ''2019-05-01'' = (''vnir_new'', Some 939, Some 3648, Some 210) \<and>
   ''vnir_new'' \<noteq> ''swir_old_middle'' \<and>
   read_envlogs ''vnir_new'' (Some 3648) [(''notes.txt'', None)] =
     Inr ([], \<lparr>ncols = 3648, rows = ([] :: rat list list)\<rparr>) \<and>
   (\<exists>r. perform_process
          (\<lparr>w_exists = \<lambda>p. True, w_isdir = \<lambda>p. True,
            w_raw = \<lparr>dim0 = 0, dim1 = 0, dim2 = 0, cells = []\<rparr>,
            w_listdir = [(''notes.txt'', None)],
            w_best_matched = \<lambda>c. None, w_bias = \<lambda>c. None, w_gain = \<lambda>c. None,
            w_template = None\<rparr> :: (nat, rat, nat) world)
          [''scan_raw.hdr'', ''scan_raw''] ''/logs'' True None ''VNIR'' None
          ''2019-05-01T12:38:49'' = (r, None) \<and>
        res_code r = - 1004)"
proof -
  define w :: "(nat, rat, nat) world" where
    "w = \<lparr>w_exists = \<lambda>p. True, w_isdir = \<lambda>p. True,
          w_raw = \<lparr>dim0 = 0, dim1 = 0, dim2 = 0, cells = []\<rparr>,
          w_listdir = [(''notes.txt'', None)],
          w_best_matched = \<lambda>c. None, w_bias = \<lambda>c. None, w_gain = \<lambda>c. None,
          w_template = None\<rparr>"
  have h1: "get_camera_info ''VNIR'' ''2019-05-01'' =
              (''vnir_new'', Some 939, Some 3648, Some 210)"
    by (simp add: get_camera_info_def)
  have h2: "''vnir_new'' \<noteq> ''swir_old_middle''" by simp
  have h3': "read_envlogs ''vnir_new'' (Some 3648) [(''notes.txt'', None)] =
     Inr ([], \<lparr>ncols = 3648, rows = ([] :: rat list list)\<rparr>)"
    by (simp add: read_envlogs_def endswith_def)
  then have h3: "read_envlogs ''vnir_new'' (Some 3648) (w_listdir w) =
     Inr ([], \<lparr>ncols = 3648, rows = ([] :: rat list list)\<rparr>)"
    by (simp add: w_def)
  have h4: "''2019-05-01'' =
           replace_char (CHR ''_'') (CHR ''-'')
             (replace_char (CHR ''/'') (CHR ''-'')
                (if (None :: string option) \<noteq> None \<and> (None :: string option) \<noteq> Some []
                 then the None else take 10 ''2019-05-01T12:38:49''))"
    by (simp add: replace_char_def)
  from apply_calibration_empty_series [OF h1 h2 h3 h4,
      of "[''scan_raw.hdr'', ''scan_raw'']" "''/logs''" True None]
  obtain r where r:
    "perform_process w [''scan_raw.hdr'', ''scan_raw''] ''/logs'' True None ''VNIR'' None
       ''2019-05-01T12:38:49'' = (r, None)"
    "get_needed_files [''scan_raw.hdr'', ''scan_raw''] \<noteq> None \<and>
     get_needed_files [''scan_raw.hdr'', ''scan_raw''] \<noteq> Some [] \<and>
     w_isdir w ''/logs'' \<and> (True \<or> (None :: string option) = None \<or> (None :: string option) = Some [])
     \<longrightarrow> res_code r = - 1004"
    by blast
  have "get_needed_files [''scan_raw.hdr'', ''scan_raw''] = Some ''scan_raw''"
    by (simp add: get_needed_files_def endswith_def)
  moreover have "w_isdir w ''/logs''" by (simp add: w_def)
  ultimately have c: "res_code r = - 1004" using r(2) by simp
  from r(1) c have "\<exists>r. perform_process w [''scan_raw.hdr'', ''scan_raw''] ''/logs'' True None
       ''VNIR'' None ''2019-05-01T12:38:49'' = (r, None) \<and> res_code r = - 1004"
    by blast
  with h1 h2 h3' show ?thesis unfolding w_def by simp
qed

end
